theory Spec2Isabelle
  imports Complex_Main
begin

section \<open>Numbers, points and quaternions\<close>

text \<open>
  The polyfill computes with JavaScript Numbers. They are modelled as mathematical reals:
  \<open>+\<close>, \<open>-\<close>, \<open>*\<close>, \<open>/\<close> and \<open>Math.sqrt\<close> are the exact operations, so rounding,
  overflow, \<open>NaN\<close> and the single-precision storage of a \<open>Float32Array\<close> are outside the
  model. Every statement below about "exact" values or "unit length" is a statement about
  this exact arithmetic.

  A point \<open>{ x, y, z }\<close> (also the \<open>x, y, z\<close> of a \<open>DOMPointReadOnly\<close> whose \<open>w\<close> is the
  constant 1) is a \<open>vec3\<close>; a quaternion \<open>{ x, y, z, w }\<close> is a \<open>quat\<close>.
\<close>

datatype vec3 = Vec3 (vec_x: real) (vec_y: real) (vec_z: real)

datatype quat = Quat (quat_x: real) (quat_y: real) (quat_z: real) (quat_w: real)

definition vec_neg :: "vec3 \<Rightarrow> vec3" where
  "vec_neg v = Vec3 (- vec_x v) (- vec_y v) (- vec_z v)"

definition quat_neg :: "quat \<Rightarrow> quat" where
  "quat_neg q = Quat (- quat_x q) (- quat_y q) (- quat_z q) (- quat_w q)"

text \<open>The squared length of a quaternion; a quaternion is a unit quaternion when it is 1.\<close>

definition sumsq :: "quat \<Rightarrow> real" where
  "sumsq q = quat_x q * quat_x q + quat_y q * quat_y q + quat_z q * quat_z q + quat_w q * quat_w q"

definition unitQuat :: "quat \<Rightarrow> bool" where
  "unitQuat q \<longleftrightarrow> sumsq q = 1"

definition unitVec :: "vec3 \<Rightarrow> bool" where
  "unitVec v \<longleftrightarrow> vec_x v * vec_x v + vec_y v * vec_y v + vec_z v * vec_z v = 1"

text \<open>\<^verbatim>\<open>function lerp( a, b, t ) { return a + ( b - a ) * t; }\<close>\<close>

definition lerp :: "real \<Rightarrow> real \<Rightarrow> real \<Rightarrow> real" where
  "lerp a b t = a + (b - a) * t"

text \<open>The \<^verbatim>\<open>config\<close> object. Only \<^verbatim>\<open>config.stereo\<close> is ever assigned after start-up; it is a
  field of the tracking state below.\<close>

definition config_positionScale :: real where "config_positionScale = 0.5"
definition config_depthScale :: real where "config_depthScale = 0.3"
definition config_smoothing :: real where "config_smoothing = 0.7"
definition config_standingHeight :: real where "config_standingHeight = 1.8"

section \<open>Hand data and the module-level tracking state\<close>

datatype handedness = LeftHand | RightHand

record joint =
  position :: vec3
  radius :: real

text \<open>
  A hand-data object. \<^verbatim>\<open>processHandLandmarks\<close> fills every field; the placeholder
  \<^verbatim>\<open>{ joints: [] }\<close> of \<^verbatim>\<open>XRHand\<close> has no \<^verbatim>\<open>palmNormal\<close> and no \<^verbatim>\<open>handedness\<close> (\<open>None\<close>) and
  its \<^verbatim>\<open>visible\<close> is \<^verbatim>\<open>undefined\<close>, which is falsy. \<^verbatim>\<open>joints[ i ]\<close> is \<^verbatim>\<open>undefined\<close> exactly when
  \<open>i\<close> is not below the length of the list.
\<close>

record handData =
  joints :: "joint list"
  visible :: bool
  palmNormal :: "vec3 option"
  handedness :: "handedness option"

definition emptyJoints :: handData where
  "emptyJoints = \<lparr>joints = [], visible = False, palmNormal = None, handedness = None\<rparr>"

text \<open>\<^verbatim>\<open>headPosition\<close>, \<^verbatim>\<open>headRotation\<close>, \<^verbatim>\<open>leftHandData\<close>, \<^verbatim>\<open>rightHandData\<close> and \<^verbatim>\<open>config.stereo\<close>.\<close>

record tracking =
  headPosition :: vec3
  headRotation :: quat
  leftHandData :: "handData option"
  rightHandData :: "handData option"
  stereo :: bool

definition initialTracking :: tracking where
  "initialTracking =
     \<lparr>headPosition = Vec3 0 0 (- 0.5), headRotation = Quat 0 0 0 1,
      leftHandData = None, rightHandData = None, stereo = False\<rparr>"

section \<open>Rigid transforms, reference spaces and the viewer pose\<close>

record rigidTransform =
  t_position :: vec3
  t_orientation :: quat

text \<open>The constructor of \<^verbatim>\<open>XRRigidTransform\<close>: a missing argument is replaced by
  \<^verbatim>\<open>new DOMPointReadOnly( 0, 0, 0, 1 )\<close>.\<close>

definition XRRigidTransform :: "vec3 option \<Rightarrow> quat option \<Rightarrow> rigidTransform" where
  "XRRigidTransform p orientation =
     \<lparr>t_position = (case p of None \<Rightarrow> Vec3 0 0 0 | Some v \<Rightarrow> v),
      t_orientation = (case orientation of None \<Rightarrow> Quat 0 0 0 1 | Some q \<Rightarrow> q)\<rparr>"

text \<open>The getter \<^verbatim>\<open>matrix\<close>: the sixteen entries of the column-major 4x4 matrix, in index order.\<close>

definition matrix :: "rigidTransform \<Rightarrow> real list" where
  "matrix t =
     (let x = quat_x (t_orientation t); y = quat_y (t_orientation t);
          z = quat_z (t_orientation t); w = quat_w (t_orientation t);
          x2 = x + x; y2 = y + y; z2 = z + z;
          xx = x * x2; xy = x * y2; xz = x * z2;
          yy = y * y2; yz = y * z2; zz = z * z2;
          wx = w * x2; wy = w * y2; wz = w * z2
      in [1 - (yy + zz), xy + wz, xz - wy, 0,
          xy - wz, 1 - (xx + zz), yz + wx, 0,
          xz + wy, yz - wx, 1 - (xx + yy), 0,
          vec_x (t_position t), vec_y (t_position t), vec_z (t_position t), 1])"

text \<open>An \<^verbatim>\<open>XRReferenceSpace\<close>: its type string and the \<^verbatim>\<open>_originOffset\<close> property, which only
  \<^verbatim>\<open>getOffsetReferenceSpace\<close> sets (\<open>None\<close>: the property is absent, \<^verbatim>\<open>null\<close> or \<^verbatim>\<open>undefined\<close>).\<close>

record referenceSpace =
  ref_type :: string
  originOffset :: "rigidTransform option"

definition XRReferenceSpace :: "string \<Rightarrow> referenceSpace" where
  "XRReferenceSpace type = \<lparr>ref_type = type, originOffset = None\<rparr>"

definition getOffsetReferenceSpace :: "referenceSpace \<Rightarrow> rigidTransform option \<Rightarrow> referenceSpace" where
  "getOffsetReferenceSpace this offset = (XRReferenceSpace (ref_type this))\<lparr>originOffset := offset\<rparr>"

record view =
  eye :: string
  view_transform :: rigidTransform
  recommendedViewportScale :: real

text \<open>The constructor of \<^verbatim>\<open>XRView\<close>, without the camera object and the constant projection
  matrix.\<close>

definition XRView :: "string \<Rightarrow> rigidTransform \<Rightarrow> view" where
  "XRView e viewerTransform =
     (let eyeOffset = (if e = ''left'' then - 0.032 else if e = ''right'' then 0.032 else 0);
          p = Vec3 (vec_x (t_position viewerTransform) + eyeOffset)
                   (vec_y (t_position viewerTransform))
                   (vec_z (t_position viewerTransform))
      in \<lparr>eye = e,
          view_transform = XRRigidTransform (Some p) (Some (t_orientation viewerTransform)),
          recommendedViewportScale = 1\<rparr>)"

record viewerPose =
  transform :: rigidTransform
  emulatedPosition :: bool
  views :: "view list"

text \<open>The constructor of \<^verbatim>\<open>XRViewerPose\<close>, which is all that \<^verbatim>\<open>XRFrame.getViewerPose\<close> calls. It
  reads the module-level head pose and \<^verbatim>\<open>config\<close>.\<close>

definition XRViewerPose :: "tracking \<Rightarrow> referenceSpace \<Rightarrow> viewerPose" where
  "XRViewerPose tr referenceSpace =
     (let heightOffset =
            (if ref_type referenceSpace = ''local-floor'' \<or> ref_type referenceSpace = ''bounded-floor''
             then config_standingHeight else 0);
          posX = vec_x (headPosition tr);
          posY = vec_y (headPosition tr) + heightOffset;
          posZ = vec_z (headPosition tr);
          p = (case originOffset referenceSpace of
                 None \<Rightarrow> Vec3 posX posY posZ
               | Some offset \<Rightarrow>
                   Vec3 (posX - vec_x (t_position offset))
                        (posY - vec_y (t_position offset))
                        (posZ - vec_z (t_position offset)));
          t = XRRigidTransform (Some p) (Some (headRotation tr))
      in \<lparr>transform = t, emulatedPosition = True,
          views = (if stereo tr then [XRView ''left'' t, XRView ''right'' t]
                   else [XRView ''none'' t])\<rparr>)"

definition getViewerPose :: "tracking \<Rightarrow> referenceSpace \<Rightarrow> viewerPose" where
  "getViewerPose tr referenceSpace = XRViewerPose tr referenceSpace"

text \<open>The three parts of the position of a viewer pose, as the constructor computes them.\<close>

definition floorOffset :: "string \<Rightarrow> real" where
  "floorOffset type = (if type = ''local-floor'' \<or> type = ''bounded-floor'' then config_standingHeight else 0)"

definition offsetPosition :: "rigidTransform option \<Rightarrow> vec3" where
  "offsetPosition offset = (case offset of None \<Rightarrow> Vec3 0 0 0 | Some t \<Rightarrow> t_position t)"

section \<open>Head pose from the face detector\<close>

text \<open>
  What a call can end with instead of a value: the \<^verbatim>\<open>DOMException\<close> named \<^verbatim>\<open>InvalidStateError\<close>
  that \<^verbatim>\<open>requestSession\<close> throws, the \<^verbatim>\<open>TypeError\<close> that reading a property of \<^verbatim>\<open>undefined\<close>
  throws, and \<open>NotANumber\<close> for the inputs on which the JavaScript goes on with \<^verbatim>\<open>NaN\<close> or an
  infinity (an entry read past the end of an array, a division by zero): the code does not
  stop there, but its values leave the reals, so the model reports the input instead of
  computing with the value HOL gives to \<open>x / 0\<close>.
\<close>

datatype error = InvalidStateError | TypeError | NotANumber

text \<open>
  The matrix-to-quaternion code (after three.js \<^verbatim>\<open>Matrix4.decompose\<close>). The source has it
  twice, in \<^verbatim>\<open>updateHeadFromMatrix\<close> on \<^verbatim>\<open>m11 .. m33\<close> and in \<^verbatim>\<open>computeJointOrientation\<close> on
  \<^verbatim>\<open>m00 .. m22\<close>; the two copies differ in the names only. The arguments are the entries by
  row and column, and the result is not normalized.
\<close>

definition matrixToQuaternion ::
  "real \<Rightarrow> real \<Rightarrow> real \<Rightarrow> real \<Rightarrow> real \<Rightarrow> real \<Rightarrow> real \<Rightarrow> real \<Rightarrow> real \<Rightarrow> quat" where
  "matrixToQuaternion m11 m12 m13 m21 m22 m23 m31 m32 m33 =
     (let trace = m11 + m22 + m33 in
      if trace > 0 then
        (let s = 0.5 / sqrt (trace + 1.0)
         in Quat ((m32 - m23) * s) ((m13 - m31) * s) ((m21 - m12) * s) (0.25 / s))
      else if m11 > m22 \<and> m11 > m33 then
        (let s = 2.0 * sqrt (1.0 + m11 - m22 - m33)
         in Quat (0.25 * s) ((m12 + m21) / s) ((m13 + m31) / s) ((m32 - m23) / s))
      else if m22 > m33 then
        (let s = 2.0 * sqrt (1.0 + m22 - m11 - m33)
         in Quat ((m12 + m21) / s) (0.25 * s) ((m23 + m32) / s) ((m13 - m31) / s))
      else
        (let s = 2.0 * sqrt (1.0 + m33 - m11 - m22)
         in Quat ((m13 + m31) / s) ((m23 + m32) / s) (0.25 * s) ((m21 - m12) / s)))"

text \<open>The upper-left 3x3 block of a column-major array of sixteen entries, read as
  \<^verbatim>\<open>updateHeadFromMatrix\<close> reads it (\<^verbatim>\<open>m11 = m[ 0 ], m12 = m[ 4 ], m13 = m[ 8 ]\<close>, ...), and handed
  to the extraction.\<close>

definition rotationToQuaternion :: "real list \<Rightarrow> quat" where
  "rotationToQuaternion m =
     matrixToQuaternion (m ! 0) (m ! 4) (m ! 8) (m ! 1) (m ! 5) (m ! 9) (m ! 2) (m ! 6) (m ! 10)"

text \<open>The normalization \<^verbatim>\<open>q / len\<close> with \<^verbatim>\<open>len = Math.sqrt( qx * qx + qy * qy + qz * qz + qw * qw )\<close>.\<close>

definition normalizeQuat :: "quat \<Rightarrow> quat" where
  "normalizeQuat q =
     (let len = sqrt (quat_x q * quat_x q + quat_y q * quat_y q + quat_z q * quat_z q
                      + quat_w q * quat_w q)
      in Quat (quat_x q / len) (quat_y q / len) (quat_z q / len) (quat_w q / len))"

text \<open>The routine the specification calls \<^verbatim>\<open>quaternionFromRotationMatrix\<close>: the extraction
  followed by the normalization, on a column-major array.\<close>

definition quaternionFromRotationMatrix :: "real list \<Rightarrow> quat" where
  "quaternionFromRotationMatrix m = normalizeQuat (rotationToQuaternion m)"

text \<open>
  \<^verbatim>\<open>updateHeadFromMatrix( matrixData )\<close>. The target orientation is the normalized extraction with
  its \<open>x\<close> negated (\<^verbatim>\<open>targetQx = - qx / len\<close>), the mirrored camera view. An array shorter than
  sixteen entries, and a length of zero in one of the two divisions, are \<open>NotANumber\<close>.
\<close>

definition updateHeadFromMatrix :: "real list \<Rightarrow> tracking \<Rightarrow> error + tracking" where
  "updateHeadFromMatrix m tr =
     (if length m < 16 then Inl NotANumber
      else
        let tx = m ! 12; ty = m ! 13; tz = m ! 14;
            targetX = - tx * 0.02;
            targetY = - ty * 0.02;
            targetZ = - (tz + 50) * 0.02;
            hp = Vec3 (lerp (vec_x (headPosition tr)) targetX (1 - config_smoothing))
                      (lerp (vec_y (headPosition tr)) targetY (1 - config_smoothing))
                      (lerp (vec_z (headPosition tr)) targetZ (1 - config_smoothing));
            q = rotationToQuaternion m;
            len = sqrt (quat_x q * quat_x q + quat_y q * quat_y q + quat_z q * quat_z q
                        + quat_w q * quat_w q);
            targetQx = - quat_x q / len;
            targetQy = quat_y q / len;
            targetQz = quat_z q / len;
            targetQw = quat_w q / len;
            hx = lerp (quat_x (headRotation tr)) targetQx (1 - config_smoothing);
            hy = lerp (quat_y (headRotation tr)) targetQy (1 - config_smoothing);
            hz = lerp (quat_z (headRotation tr)) targetQz (1 - config_smoothing);
            hw = lerp (quat_w (headRotation tr)) targetQw (1 - config_smoothing);
            rlen = sqrt (hx ^ 2 + hy ^ 2 + hz ^ 2 + hw ^ 2)
        in if len = 0 \<or> rlen = 0 then Inl NotANumber
           else Inr (tr\<lparr>headPosition := hp,
                         headRotation := Quat (hx / rlen) (hy / rlen) (hz / rlen) (hw / rlen)\<rparr>))"

text \<open>\<^verbatim>\<open>updateHeadFromLandmarks( landmarks )\<close>: \<^verbatim>\<open>landmarks[ 1 ]\<close> is the nose; reading \<^verbatim>\<open>nose.x\<close>
  throws when the list has no second entry. The orientation is not assigned.\<close>

definition updateHeadFromLandmarks :: "vec3 list \<Rightarrow> tracking \<Rightarrow> error + tracking" where
  "updateHeadFromLandmarks landmarks tr =
     (if length landmarks < 2 then Inl TypeError
      else
        let nose = landmarks ! 1;
            targetX = - (vec_x nose - 0.5) * config_positionScale;
            targetY = - (vec_y nose - 0.5) * config_positionScale;
            targetZ = - 0.5 + vec_z nose * config_depthScale
        in Inr (tr\<lparr>headPosition :=
                  Vec3 (lerp (vec_x (headPosition tr)) targetX (1 - config_smoothing))
                       (lerp (vec_y (headPosition tr)) targetY (1 - config_smoothing))
                       (lerp (vec_z (headPosition tr)) targetZ (1 - config_smoothing))\<rparr>))"

text \<open>
  The face half of \<^verbatim>\<open>processFrame\<close>. The detector is a black box; its result for one camera
  frame is an input of the model: \<^verbatim>\<open>facialTransformationMatrixes\<close> (each entry the \<^verbatim>\<open>data\<close> array
  of a matrix) and \<^verbatim>\<open>faceLandmarks\<close>, either of which may be absent.
\<close>

record faceResults =
  facialTransformationMatrixes :: "real list list option"
  faceLandmarks :: "vec3 list list option"

definition processFace :: "faceResults \<Rightarrow> tracking \<Rightarrow> error + tracking" where
  "processFace faceRes tr =
     (case facialTransformationMatrixes faceRes of
        Some (m # ms) \<Rightarrow> updateHeadFromMatrix m tr
      | _ \<Rightarrow>
        (case faceLandmarks faceRes of
           Some (l # ls) \<Rightarrow> updateHeadFromLandmarks l tr
         | _ \<Rightarrow> Inr tr))"

text \<open>A run of camera frames: every frame updates the head pose; a frame on which the update
  throws ends the run with that error, as the exception ends the frame loop.\<close>

fun processFaces :: "faceResults list \<Rightarrow> tracking \<Rightarrow> error + tracking" where
  "processFaces [] tr = Inr tr"
| "processFaces (f # fs) tr =
     (case processFace f tr of Inl e \<Rightarrow> Inl e | Inr tr' \<Rightarrow> processFaces fs tr')"

text \<open>A detector result is well formed when its first matrix has sixteen entries and, where
  the landmark path is taken, its first landmark list has the nose landmark.\<close>

definition wellFormedFace :: "faceResults \<Rightarrow> bool" where
  "wellFormedFace faceRes =
     (case facialTransformationMatrixes faceRes of
        Some (m # ms) \<Rightarrow> 16 \<le> length m
      | _ \<Rightarrow>
        (case faceLandmarks faceRes of
           Some (l # ls) \<Rightarrow> 2 \<le> length l
         | _ \<Rightarrow> True))"

section \<open>The hand skeleton\<close>

text \<open>\<^verbatim>\<open>interpolateJoint( a, b, t )\<close>.\<close>

definition interpolateJoint :: "joint \<Rightarrow> joint \<Rightarrow> real \<Rightarrow> joint" where
  "interpolateJoint a b t =
     \<lparr>position = Vec3 (vec_x (position a) + (vec_x (position b) - vec_x (position a)) * t)
                      (vec_y (position a) + (vec_y (position b) - vec_y (position a)) * t)
                      (vec_z (position a) + (vec_z (position b) - vec_z (position a)) * t),
      radius = 0.01\<rparr>"

text \<open>
  The anchor of a hand in \<^verbatim>\<open>processHandLandmarks\<close>: \<^verbatim>\<open>screenX, screenY, screenZ\<close>, from the wrist
  of the normalized landmarks and the current head position.
\<close>

definition handAnchor :: "vec3 \<Rightarrow> tracking \<Rightarrow> vec3" where
  "handAnchor wristScreen tr =
     (let offsetX = - (vec_x wristScreen - 0.5) * 1.2;
          offsetY = - (vec_y wristScreen - 0.5) * 0.8 - 0.3;
          offsetZ = - 0.5 - vec_z wristScreen * 0.3
      in Vec3 (vec_x (headPosition tr) + offsetX)
              (vec_y (headPosition tr) + config_standingHeight + offsetY)
              (vec_z (headPosition tr) + offsetZ))"

text \<open>
  The body of the loop over the 21 detector landmarks: joint \<open>i\<close>, from the metric world
  landmarks when they are used (\<open>Some\<close>) and from the normalized landmarks otherwise.
\<close>

definition detectorJoint :: "vec3 list \<Rightarrow> vec3 list option \<Rightarrow> vec3 \<Rightarrow> nat \<Rightarrow> joint" where
  "detectorJoint landmarks world screen i =
     (case world of
        Some worldLandmarks \<Rightarrow>
          (let lm = worldLandmarks ! i; wristWorld = worldLandmarks ! 0;
               relX = vec_x lm - vec_x wristWorld;
               relY = vec_y lm - vec_y wristWorld;
               relZ = vec_z lm - vec_z wristWorld
           in \<lparr>position = Vec3 (vec_x screen - relX) (vec_y screen - relY) (vec_z screen + relZ),
                radius = 0.01\<rparr>)
      | None \<Rightarrow>
          (let lm = landmarks ! i; wristLm = landmarks ! 0;
               relX = (vec_x lm - vec_x wristLm) * 0.3;
               relY = (vec_y lm - vec_y wristLm) * 0.3;
               relZ = (vec_z lm - vec_z wristLm) * 0.15
           in \<lparr>position = Vec3 (vec_x screen - relX) (vec_y screen - relY) (vec_z screen + relZ),
                radius = 0.01\<rparr>))"

text \<open>\<^verbatim>\<open>useWorld = worldLandmarks && worldLandmarks.length > 0\<close>: the world landmarks when they
  are used.\<close>

definition usedWorld :: "vec3 list option \<Rightarrow> vec3 list option" where
  "usedWorld worldLandmarks =
     (case worldLandmarks of
        None \<Rightarrow> None
      | Some wl \<Rightarrow> if length wl > 0 then Some wl else None)"

text \<open>The array \<^verbatim>\<open>joints\<close> after the loop: the 21 detector joints.\<close>

definition detectorJoints :: "vec3 list \<Rightarrow> vec3 list option \<Rightarrow> tracking \<Rightarrow> joint list" where
  "detectorJoints landmarks worldLandmarks tr =
     map (detectorJoint landmarks (usedWorld worldLandmarks) (handAnchor (landmarks ! 0) tr)) [0..<21]"

text \<open>The expansion of the 21 detector joints to the 25 joints of WebXR, index by index.\<close>

definition expandJoints :: "joint list \<Rightarrow> joint list" where
  "expandJoints js =
     [js ! 0,
      js ! 1, js ! 2, js ! 3, js ! 4,
      interpolateJoint (js ! 0) (js ! 5) 0.5, js ! 5, js ! 6, js ! 7, js ! 8,
      interpolateJoint (js ! 0) (js ! 9) 0.5, js ! 9, js ! 10, js ! 11, js ! 12,
      interpolateJoint (js ! 0) (js ! 13) 0.5, js ! 13, js ! 14, js ! 15, js ! 16,
      interpolateJoint (js ! 0) (js ! 17) 0.5, js ! 17, js ! 18, js ! 19, js ! 20]"

text \<open>The cross product \<^verbatim>\<open>toPinky x toIndex\<close> of the 25 joints, before it is normalized:
  \<^verbatim>\<open>wrist = webxrJoints[ 0 ]\<close>, \<^verbatim>\<open>indexMcp = webxrJoints[ 6 ]\<close>, \<^verbatim>\<open>pinkyMcp = webxrJoints[ 21 ]\<close>.\<close>

definition palmCross :: "joint list \<Rightarrow> vec3" where
  "palmCross webxrJoints =
     (let wrist = position (webxrJoints ! 0);
          indexMcp = position (webxrJoints ! 6);
          pinkyMcp = position (webxrJoints ! 21);
          toIndexX = vec_x indexMcp - vec_x wrist;
          toIndexY = vec_y indexMcp - vec_y wrist;
          toIndexZ = vec_z indexMcp - vec_z wrist;
          toPinkyX = vec_x pinkyMcp - vec_x wrist;
          toPinkyY = vec_y pinkyMcp - vec_y wrist;
          toPinkyZ = vec_z pinkyMcp - vec_z wrist
      in Vec3 (toPinkyY * toIndexZ - toPinkyZ * toIndexY)
              (toPinkyZ * toIndexX - toPinkyX * toIndexZ)
              (toPinkyX * toIndexY - toPinkyY * toIndexX))"

definition palmLen :: "joint list \<Rightarrow> real" where
  "palmLen webxrJoints =
     (let n = palmCross webxrJoints
      in sqrt (vec_x n * vec_x n + vec_y n * vec_y n + vec_z n * vec_z n))"

text \<open>The palm normal: the cross product divided by its length when the length is above
  0.0001 and (0, 1, 0) otherwise, negated for the left hand.\<close>

definition computePalmNormal :: "joint list \<Rightarrow> handedness \<Rightarrow> vec3" where
  "computePalmNormal webxrJoints hnd =
     (let n = palmCross webxrJoints;
          len = palmLen webxrJoints;
          normal = (if len > 0.0001 then Vec3 (vec_x n / len) (vec_y n / len) (vec_z n / len)
                    else Vec3 0 1 0)
      in if hnd = LeftHand then Vec3 (- vec_x normal) (- vec_y normal) (- vec_z normal)
         else normal)"

text \<open>
  \<^verbatim>\<open>processHandLandmarks( landmarks, worldLandmarks, handedness )\<close>. Reading \<^verbatim>\<open>wristScreen.x\<close>
  throws when there is no landmark, and the loop throws at the first index that the list it
  reads from (the world landmarks when they are used, the normalized ones otherwise) does not
  have.
\<close>

definition processHandLandmarks ::
  "vec3 list \<Rightarrow> vec3 list option \<Rightarrow> handedness \<Rightarrow> tracking \<Rightarrow> error + handData" where
  "processHandLandmarks landmarks worldLandmarks hnd tr =
     (if landmarks = [] then Inl TypeError
      else if (case usedWorld worldLandmarks of
                 Some wl \<Rightarrow> length wl < 21
               | None \<Rightarrow> length landmarks < 21) then Inl TypeError
      else
        let webxrJoints = expandJoints (detectorJoints landmarks worldLandmarks tr)
        in Inr \<lparr>joints = webxrJoints, visible = True,
                palmNormal = Some (computePalmNormal webxrJoints hnd),
                handedness = Some hnd\<rparr>)"

text \<open>
  The loop over the detected hands in \<^verbatim>\<open>processFrame\<close>: every detected hand is processed
  in order and stored on its side (\<^verbatim>\<open>'Left'\<close> on the left, anything else on the right). One
  detected hand is its \<^verbatim>\<open>categoryName\<close>, its normalized landmarks and, when the detector
  gave world landmarks, its world landmarks. An exception leaves the loop with the hands
  stored so far.
\<close>

record detectedHand =
  categoryName :: string
  hand_landmarks :: "vec3 list"
  hand_worldLandmarks :: "vec3 list option"

fun processHands :: "detectedHand list \<Rightarrow> tracking \<Rightarrow> tracking \<times> error option" where
  "processHands [] tr = (tr, None)"
| "processHands (h # hs) tr =
     (if categoryName h = ''Left'' then
        (case processHandLandmarks (hand_landmarks h) (hand_worldLandmarks h) LeftHand tr of
           Inl e \<Rightarrow> (tr, Some e)
         | Inr d \<Rightarrow> processHands hs (tr\<lparr>leftHandData := Some d\<rparr>))
      else
        (case processHandLandmarks (hand_landmarks h) (hand_worldLandmarks h) RightHand tr of
           Inl e \<Rightarrow> (tr, Some e)
         | Inr d \<Rightarrow> processHands hs (tr\<lparr>rightHandData := Some d\<rparr>)))"

text \<open>The mirror image of an observation: a normalized landmark has its \<open>x\<close> in the unit
  interval and goes to \<open>1 - x\<close>; a world landmark is relative to the wrist and goes to
  \<open>- x\<close>. The mirror image of a direction negates its \<open>x\<close>.\<close>

definition mirrorLandmarks :: "vec3 list \<Rightarrow> vec3 list" where
  "mirrorLandmarks lms = map (\<lambda>v. Vec3 (1 - vec_x v) (vec_y v) (vec_z v)) lms"

definition mirrorWorld :: "vec3 list option \<Rightarrow> vec3 list option" where
  "mirrorWorld wls = map_option (map (\<lambda>v. Vec3 (- vec_x v) (vec_y v) (vec_z v))) wls"

definition mirrorVec :: "vec3 \<Rightarrow> vec3" where
  "mirrorVec v = Vec3 (- vec_x v) (vec_y v) (vec_z v)"

text \<open>The midpoint of two points.\<close>

definition midpoint3 :: "vec3 \<Rightarrow> vec3 \<Rightarrow> vec3" where
  "midpoint3 a b = Vec3 ((vec_x a + vec_x b) / 2) ((vec_y a + vec_y b) / 2) ((vec_z a + vec_z b) / 2)"

text \<open>The palm normal of a result of \<^verbatim>\<open>processHandLandmarks\<close> (\<open>None\<close> when the call threw).\<close>

definition resultNormal :: "error + handData \<Rightarrow> vec3 option" where
  "resultNormal r = (case r of Inl e \<Rightarrow> None | Inr d \<Rightarrow> palmNormal d)"

text \<open>
  A test observation of a right hand held palm down: the wrist at the centre of the image,
  the index knuckle (detector landmark 5) 10 cm in front of the wrist and the pinky knuckle
  (detector landmark 17) 10 cm beside it; the other landmarks play no role in the palm
  normal and are left at the wrist.
\<close>

definition exampleLandmarks :: "vec3 list" where
  "exampleLandmarks = replicate 21 (Vec3 0.5 0.5 0)"

definition exampleWorld :: "vec3 list" where
  "exampleWorld = (replicate 21 (Vec3 0 0 0))[5 := Vec3 0 0 (- 0.1), 17 := Vec3 (- 0.1) 0 0]"

section \<open>Joint orientation, joint spaces and poses\<close>

definition HAND_JOINTS :: "string list" where
  "HAND_JOINTS =
     [''wrist'',
      ''thumb-metacarpal'', ''thumb-phalanx-proximal'', ''thumb-phalanx-distal'', ''thumb-tip'',
      ''index-finger-metacarpal'', ''index-finger-phalanx-proximal'',
      ''index-finger-phalanx-intermediate'', ''index-finger-phalanx-distal'', ''index-finger-tip'',
      ''middle-finger-metacarpal'', ''middle-finger-phalanx-proximal'',
      ''middle-finger-phalanx-intermediate'', ''middle-finger-phalanx-distal'', ''middle-finger-tip'',
      ''ring-finger-metacarpal'', ''ring-finger-phalanx-proximal'',
      ''ring-finger-phalanx-intermediate'', ''ring-finger-phalanx-distal'', ''ring-finger-tip'',
      ''pinky-finger-metacarpal'', ''pinky-finger-phalanx-proximal'',
      ''pinky-finger-phalanx-intermediate'', ''pinky-finger-phalanx-distal'', ''pinky-finger-tip'']"

text \<open>The table \<^verbatim>\<open>JOINT_CHAIN_NEXT\<close>; an index that is not a key gives \<^verbatim>\<open>undefined\<close>.\<close>

definition JOINT_CHAIN_NEXT :: "nat \<Rightarrow> nat option" where
  "JOINT_CHAIN_NEXT =
     map_of [(0, 5),
             (1, 2), (2, 3), (3, 4), (4, 4),
             (5, 6), (6, 7), (7, 8), (8, 9), (9, 9),
             (10, 11), (11, 12), (12, 13), (13, 14), (14, 14),
             (15, 16), (16, 17), (17, 18), (18, 19), (19, 19),
             (20, 21), (21, 22), (22, 23), (23, 24), (24, 24)]"

text \<open>The cross product and the length as the code writes them out.\<close>

definition cross :: "vec3 \<Rightarrow> vec3 \<Rightarrow> vec3" where
  "cross a b = Vec3 (vec_y a * vec_z b - vec_z a * vec_y b)
                    (vec_z a * vec_x b - vec_x a * vec_z b)
                    (vec_x a * vec_y b - vec_y a * vec_x b)"

definition vecLen :: "vec3 \<Rightarrow> real" where
  "vecLen v = sqrt (vec_x v * vec_x v + vec_y v * vec_y v + vec_z v * vec_z v)"

definition vecDiv :: "vec3 \<Rightarrow> real \<Rightarrow> vec3" where
  "vecDiv v l = Vec3 (vec_x v / l) (vec_y v / l) (vec_z v / l)"

text \<open>
  \<^verbatim>\<open>computeJointOrientation( joints, jointIndex, palmNormal, handedness )\<close>. Every division is
  behind a test of the length against 0.0001, and the matrix, whose columns are right, up and
  minus forward, goes through the same extraction as the head matrix, without normalization.
\<close>

definition computeJointOrientation :: "joint list \<Rightarrow> nat \<Rightarrow> vec3 \<Rightarrow> handedness \<Rightarrow> quat" where
  "computeJointOrientation js jointIndex pn hnd =
     (case JOINT_CHAIN_NEXT jointIndex of
        None \<Rightarrow> Quat 0 0 0 1
      | Some nextIndex \<Rightarrow>
          if \<not> jointIndex < length js \<or> \<not> nextIndex < length js \<or> jointIndex = nextIndex
          then Quat 0 0 0 1
          else
            let current = js ! jointIndex;
                next = js ! nextIndex;
                fwd0 = Vec3 (vec_x (position next) - vec_x (position current))
                            (vec_y (position next) - vec_y (position current))
                            (vec_z (position next) - vec_z (position current));
                fwdLen = vecLen fwd0
            in if fwdLen < 0.0001 then Quat 0 0 0 1
               else
                 let fwd = vecDiv fwd0 fwdLen;
                     upRef =
                       (if 1 \<le> jointIndex \<and> jointIndex \<le> 4 then
                          (let thumbRight = cross pn fwd;
                               thumbRightLen = vecLen thumbRight
                           in if thumbRightLen > 0.0001 then
                                (let t = vecDiv thumbRight thumbRightLen;
                                     sign = (if hnd = LeftHand then - 1 else 1)
                                 in Vec3 (vec_x t * sign) (vec_y t * sign) (vec_z t * sign))
                              else pn)
                        else pn);
                     right0 = cross fwd upRef;
                     rightLen0 = vecLen right0;
                     fallback = cross fwd (Vec3 0 1 0);
                     fallbackLen = vecLen fallback;
                     right1 = (if rightLen0 < 0.0001
                               then (if fallbackLen < 0.0001 then Vec3 1 0 0 else fallback)
                               else right0);
                     rightLen = (if rightLen0 < 0.0001
                                 then (if fallbackLen < 0.0001 then 1 else fallbackLen)
                                 else rightLen0);
                     right = vecDiv right1 rightLen;
                     up = cross right fwd
                 in matrixToQuaternion
                      (vec_x right) (vec_x up) (- vec_x fwd)
                      (vec_y right) (vec_y up) (- vec_y fwd)
                      (vec_z right) (vec_z up) (- vec_z fwd))"

text \<open>An \<^verbatim>\<open>XRSpace\<close> is its \<^verbatim>\<open>_transform\<close>; an \<^verbatim>\<open>XRJointSpace\<close> adds the joint name, the hand data
  it reads, its index and the radius 0.01.\<close>

record xrSpace =
  space_transform :: rigidTransform

definition XRSpace :: xrSpace where
  "XRSpace = \<lparr>space_transform = XRRigidTransform None None\<rparr>"

record jointSpace = xrSpace +
  jointName :: string
  js_handData :: handData
  jointIndex :: nat
  js_radius :: real

definition XRJointSpace :: "string \<Rightarrow> handData \<Rightarrow> nat \<Rightarrow> jointSpace" where
  "XRJointSpace name d i =
     \<lparr>space_transform = XRRigidTransform None None,
      jointName = name, js_handData = d, jointIndex = i, js_radius = 0.01\<rparr>"

record pose =
  pose_transform :: rigidTransform
  pose_emulatedPosition :: bool

record jointPose = pose +
  jp_radius :: real

definition XRPose :: "rigidTransform \<Rightarrow> pose" where
  "XRPose t = \<lparr>pose_transform = t, pose_emulatedPosition = True\<rparr>"

definition XRJointPose :: "rigidTransform \<Rightarrow> real \<Rightarrow> jointPose" where
  "XRJointPose t r = \<lparr>pose_transform = t, pose_emulatedPosition = True, jp_radius = r\<rparr>"

text \<open>\<^verbatim>\<open>XRJointSpace._getPose()\<close> and \<^verbatim>\<open>XRJointSpace._getJointPose()\<close>; \<open>None\<close> is \<^verbatim>\<open>null\<close>.\<close>

definition jointSpace_getPose :: "jointSpace \<Rightarrow> pose option" where
  "jointSpace_getPose this =
     (let js = joints (js_handData this) in
      if \<not> jointIndex this < length js then None
      else
        let j = js ! jointIndex this;
            pn = (case palmNormal (js_handData this) of None \<Rightarrow> Vec3 0 1 0 | Some n \<Rightarrow> n);
            hnd = (case handedness (js_handData this) of None \<Rightarrow> RightHand | Some h \<Rightarrow> h);
            q = computeJointOrientation js (jointIndex this) pn hnd
        in Some (XRPose (XRRigidTransform (Some (position j)) (Some q))))"

definition jointSpace_getJointPose :: "jointSpace \<Rightarrow> jointPose option" where
  "jointSpace_getJointPose this =
     (case jointSpace_getPose this of
        None \<Rightarrow> None
      | Some p \<Rightarrow> Some (XRJointPose (pose_transform p) (js_radius this)))"

text \<open>What a caller can hand to \<^verbatim>\<open>XRFrame.getPose\<close> and \<^verbatim>\<open>XRFrame.getJointPose\<close>: a joint space,
  another \<^verbatim>\<open>XRSpace\<close>, or anything else.\<close>

datatype spaceArg = JointSpaceArg jointSpace | SpaceArg xrSpace | OtherArg

definition getPose :: "spaceArg \<Rightarrow> pose option" where
  "getPose space =
     (case space of
        JointSpaceArg s \<Rightarrow> jointSpace_getPose s
      | SpaceArg s \<Rightarrow> Some (XRPose (space_transform s))
      | OtherArg \<Rightarrow> None)"

definition getJointPose :: "spaceArg \<Rightarrow> jointPose option" where
  "getJointPose j =
     (case j of
        JointSpaceArg s \<Rightarrow> jointSpace_getJointPose s
      | _ \<Rightarrow> None)"

text \<open>
  An \<^verbatim>\<open>XRHand\<close>: the map from the 25 joint names to their joint spaces, kept as the list of
  the spaces in the order of \<^verbatim>\<open>HAND_JOINTS\<close>, and \<^verbatim>\<open>_handData\<close>. The constructor gives every
  joint space the placeholder \<^verbatim>\<open>{ joints: [] }\<close>; \<^verbatim>\<open>_update\<close> gives every joint space the new
  hand data, or the placeholder when the data is absent.
\<close>

record xrHand =
  hand_handData :: "handData option"
  jointSpaces :: "jointSpace list"

definition XRHand :: "handData option \<Rightarrow> xrHand" where
  "XRHand d =
     \<lparr>hand_handData = d,
      jointSpaces = map (\<lambda>i. XRJointSpace (HAND_JOINTS ! i) emptyJoints i) [0..<length HAND_JOINTS]\<rparr>"

definition XRHand_update :: "xrHand \<Rightarrow> handData option \<Rightarrow> xrHand" where
  "XRHand_update this d =
     \<lparr>hand_handData = d,
      jointSpaces = map (\<lambda>s. s\<lparr>js_handData := (case d of None \<Rightarrow> emptyJoints | Some v \<Rightarrow> v)\<rparr>)
                        (jointSpaces this)\<rparr>"

definition XRHand_get :: "xrHand \<Rightarrow> string \<Rightarrow> jointSpace option" where
  "XRHand_get this name = find (\<lambda>s. jointName s = name) (jointSpaces this)"

text \<open>The test observation after \<^verbatim>\<open>processHandLandmarks\<close>, as a right hand.\<close>

definition exampleHand :: handData where
  "exampleHand =
     \<lparr>joints = expandJoints (detectorJoints exampleLandmarks (Some exampleWorld) initialTracking),
      visible = True, palmNormal = Some (Vec3 0 1 0), handedness = Some RightHand\<rparr>"

section \<open>Input sources and the pinch gesture\<close>

text \<open>
  The events that the polyfill dispatches on a session: \<^verbatim>\<open>end\<close>, \<^verbatim>\<open>selectstart\<close> and \<^verbatim>\<open>selectend\<close>
  (with the input source, which is the one of a side), and \<^verbatim>\<open>inputsourceschange\<close> with the
  added and the removed input sources. The functions below return the events they dispatch,
  in order; listeners of the application are outside the model.
\<close>

datatype xrEvent =
    SessionEnd
  | SelectStart handedness
  | SelectEnd handedness
  | InputSourcesChange "handedness list" "handedness list"

record gamepadButton =
  pressed :: bool
  touched :: bool
  button_value :: real

text \<open>The gamepad object, without \<^verbatim>\<open>hapticActuators\<close> (always empty) and \<^verbatim>\<open>timestamp\<close> (the clock).\<close>

record gamepad =
  axes :: "real list"
  buttons :: "gamepadButton list"
  connected :: bool
  gp_hand :: handedness
  gp_id :: string
  gp_index :: nat
  gp_mapping :: string

text \<open>
  An \<^verbatim>\<open>XRInputSource\<close>. \<^verbatim>\<open>hand\<close> exists with hand tracking only; \<^verbatim>\<open>_pinchThreshold\<close> and
  \<^verbatim>\<open>_isPinching\<close> exist without hand tracking only (\<open>None\<close> and \<open>False\<close> stand for
  \<^verbatim>\<open>undefined\<close>). \<^verbatim>\<open>_session\<close> is a reference to the session, or \<^verbatim>\<open>null\<close>.
\<close>

record inputSource =
  src_handedness :: handedness
  targetRayMode :: string
  targetRaySpace :: xrSpace
  gripSpace :: xrSpace
  src_gamepad :: gamepad
  profiles :: "string list"
  hand :: "xrHand option"
  pinchThreshold :: "real option"
  isPinching :: bool
  src_handTrackingEnabled :: bool
  src_session :: "nat option"

text \<open>The distance of the thumb tip (joint 4) and the index finger tip (joint 9), which
  \<^verbatim>\<open>_updateGamepad\<close> and \<^verbatim>\<open>_detectGestures\<close> both compute once the hand has ten joints.\<close>

definition pinchDist :: "handData \<Rightarrow> real" where
  "pinchDist d =
     (let thumbTip = position (joints d ! 4); indexTip = position (joints d ! 9)
      in sqrt ((vec_x thumbTip - vec_x indexTip) ^ 2
               + (vec_y thumbTip - vec_y indexTip) ^ 2
               + (vec_z thumbTip - vec_z indexTip) ^ 2))"

text \<open>\<^verbatim>\<open>_updateGamepad( handData )\<close>; \<^verbatim>\<open>this._pinchThreshold || 0.05\<close> replaces a missing or zero
  threshold.\<close>

definition updateGamepad :: "inputSource \<Rightarrow> handData \<Rightarrow> inputSource" where
  "updateGamepad this d =
     (if length (joints d) < 10 then this
      else
        let dist = pinchDist d;
            threshold = (case pinchThreshold this of
                           None \<Rightarrow> 0.05
                         | Some t \<Rightarrow> if t = 0 then 0.05 else t);
            triggerValue = max 0 (1 - dist / threshold);
            g = src_gamepad this;
            b = (buttons g ! 0)\<lparr>pressed := dist < threshold,
                                 touched := dist < threshold * 2,
                                 button_value := min 1 triggerValue\<rparr>
        in this\<lparr>src_gamepad := g\<lparr>buttons := (buttons g)[0 := b]\<rparr>\<rparr>)"

text \<open>\<^verbatim>\<open>_detectGestures( handData )\<close>: the new state and the event it dispatches, if any. A
  comparison with an \<^verbatim>\<open>undefined\<close> threshold is false.\<close>

definition detectGestures :: "inputSource \<Rightarrow> handData \<Rightarrow> inputSource \<times> xrEvent list" where
  "detectGestures this d =
     (if length (joints d) < 10 then (this, [])
      else
        let dist = pinchDist d;
            pinching = (case pinchThreshold this of None \<Rightarrow> False | Some t \<Rightarrow> dist < t)
        in if pinching \<and> \<not> isPinching this then
             (this\<lparr>isPinching := True\<rparr>, [SelectStart (src_handedness this)])
           else if \<not> pinching \<and> isPinching this then
             (this\<lparr>isPinching := False\<rparr>, [SelectEnd (src_handedness this)])
           else (this, []))"

text \<open>\<^verbatim>\<open>_updateHand( handData )\<close>; \<^verbatim>\<open>handData && handData.joints[ 0 ]\<close> holds when the data is
  present and has a first joint.\<close>

definition updateHand :: "inputSource \<Rightarrow> handData option \<Rightarrow> inputSource \<times> xrEvent list" where
  "updateHand this handData =
     (let this1 = (case hand this of
                     Some h \<Rightarrow> if src_handTrackingEnabled this
                               then this\<lparr>hand := Some (XRHand_update h handData)\<rparr> else this
                   | None \<Rightarrow> this)
      in case handData of
           None \<Rightarrow> (this1, [])
         | Some d \<Rightarrow>
             if joints d = [] then (this1, [])
             else
               let wrist = joints d ! 0;
                   t = XRRigidTransform (Some (position wrist)) (Some (Quat 0 0 0 1));
                   this2 = this1\<lparr>gripSpace := (gripSpace this1)\<lparr>space_transform := t\<rparr>,
                                 targetRaySpace := (targetRaySpace this1)\<lparr>space_transform := t\<rparr>\<rparr>;
                   this3 = updateGamepad this2 d
               in if \<not> src_handTrackingEnabled this3 \<and> src_session this3 \<noteq> None
                  then detectGestures this3 d
                  else (this3, []))"

text \<open>The constructor of \<^verbatim>\<open>XRInputSource\<close>: the fields it assigns, and then
  \<^verbatim>\<open>this._updateHand( handData )\<close>.\<close>

definition newInputSource :: "handedness \<Rightarrow> handData option \<Rightarrow> bool \<Rightarrow> nat option \<Rightarrow> inputSource" where
  "newInputSource hnd handData handTrackingEnabled session =
     \<lparr>src_handedness = hnd,
      targetRayMode = ''tracked-pointer'',
      targetRaySpace = XRSpace,
      gripSpace = XRSpace,
      src_gamepad =
        \<lparr>axes = [0, 0, 0, 0],
         buttons = replicate 4 \<lparr>pressed = False, touched = False, button_value = 0\<rparr>,
         connected = True, gp_hand = hnd, gp_id = ''webxr-webcam-emulator'',
         gp_index = (if hnd = LeftHand then 0 else 1), gp_mapping = ''xr-standard''\<rparr>,
      profiles = (if handTrackingEnabled then [''generic-hand'', ''generic-hand-select'']
                  else [''generic-trigger'', ''generic-touchpad'']),
      hand = (if handTrackingEnabled then Some (XRHand handData) else None),
      pinchThreshold = (if handTrackingEnabled then None else Some 0.05),
      isPinching = False,
      src_handTrackingEnabled = handTrackingEnabled,
      src_session = session\<rparr>"

definition XRInputSource ::
  "handedness \<Rightarrow> handData option \<Rightarrow> bool \<Rightarrow> nat option \<Rightarrow> inputSource \<times> xrEvent list" where
  "XRInputSource hnd handData handTrackingEnabled session =
     updateHand (newInputSource hnd handData handTrackingEnabled session) handData"

text \<open>
  \<^verbatim>\<open>XRInputSourceArray._update\<close> treats the left and the right hand with the same block of
  code, once for each side. This is that block: from the hand data of the side, the input
  source of the side and its active flag it gives the new input source and flag, whether the
  source was added or removed on this tick, and the events dispatched. Reading a property of
  a \<^verbatim>\<open>null\<close> input source or session throws.
\<close>

definition updateSide ::
  "handedness \<Rightarrow> bool \<Rightarrow> nat option \<Rightarrow> handData option \<Rightarrow> inputSource option \<Rightarrow> bool
     \<Rightarrow> error + (inputSource option \<times> bool \<times> bool \<times> bool \<times> xrEvent list)" where
  "updateSide side handTrackingEnabled session hdata source active =
     (let vis = (case hdata of None \<Rightarrow> False | Some d \<Rightarrow> visible d) in
      if vis \<and> \<not> active then
        (case source of
           None \<Rightarrow>
             (let (src, evs) = XRInputSource side hdata handTrackingEnabled session
              in Inr (Some src, True, True, False, evs))
         | Some h \<Rightarrow>
             (let (src, evs) = updateHand h hdata
              in Inr (Some src, True, True, False, evs)))
      else if \<not> vis \<and> active then
        (case source of
           None \<Rightarrow> Inl TypeError
         | Some h \<Rightarrow>
             if \<not> handTrackingEnabled \<and> isPinching h then
               (case session of
                  None \<Rightarrow> Inl TypeError
                | Some s \<Rightarrow> Inr (Some (h\<lparr>isPinching := False\<rparr>), False, False, True, [SelectEnd side]))
             else Inr (Some h, False, False, True, []))
      else
        (case source of
           Some h \<Rightarrow>
             if vis then (let (src, evs) = updateHand h hdata
                          in Inr (Some src, active, False, False, evs))
             else Inr (source, active, False, False, [])
         | None \<Rightarrow> Inr (source, active, False, False, [])))"

text \<open>An \<^verbatim>\<open>XRInputSourceArray\<close>; its elements are the input sources of the active sides, kept
  as the list of those sides.\<close>

record inputSourceArray =
  arr_handTrackingEnabled :: bool
  leftHand :: "inputSource option"
  rightHand :: "inputSource option"
  leftHandActive :: bool
  rightHandActive :: bool
  arr_session :: "nat option"
  contents :: "handedness list"

definition XRInputSourceArray :: inputSourceArray where
  "XRInputSourceArray =
     \<lparr>arr_handTrackingEnabled = False, leftHand = None, rightHand = None,
      leftHandActive = False, rightHandActive = False, arr_session = None, contents = []\<rparr>"

text \<open>\<^verbatim>\<open>_update( leftData, rightData )\<close>: the left block, the right block, the new contents and
  the one \<^verbatim>\<open>inputsourceschange\<close> event of the tick.\<close>

definition XRInputSourceArray_update ::
  "inputSourceArray \<Rightarrow> handData option \<Rightarrow> handData option
     \<Rightarrow> error + (inputSourceArray \<times> xrEvent list)" where
  "XRInputSourceArray_update this leftData rightData =
     (case updateSide LeftHand (arr_handTrackingEnabled this) (arr_session this) leftData
             (leftHand this) (leftHandActive this) of
        Inl e \<Rightarrow> Inl e
      | Inr (lh, la, addedL, removedL, evL) \<Rightarrow>
          (case updateSide RightHand (arr_handTrackingEnabled this) (arr_session this) rightData
                  (rightHand this) (rightHandActive this) of
             Inl e \<Rightarrow> Inl e
           | Inr (rh, ra, addedR, removedR, evR) \<Rightarrow>
               (let added = (if addedL then [LeftHand] else []) @ (if addedR then [RightHand] else []);
                    removed = (if removedL then [LeftHand] else [])
                              @ (if removedR then [RightHand] else []);
                    change = (if (added \<noteq> [] \<or> removed \<noteq> []) \<and> arr_session this \<noteq> None
                              then [InputSourcesChange added removed] else [])
                in Inr (this\<lparr>leftHand := lh, leftHandActive := la,
                                rightHand := rh, rightHandActive := ra,
                                contents := (if la then [LeftHand] else [])
                                            @ (if ra then [RightHand] else [])\<rparr>,
                        evL @ evR @ change))))"

text \<open>A run of ticks of the frame loop on the input sources: one pair of hand data per tick,
  and the events of each tick. An exception ends the run.\<close>

fun runTicks ::
  "(handData option \<times> handData option) list \<Rightarrow> inputSourceArray
     \<Rightarrow> error + (inputSourceArray \<times> xrEvent list list)" where
  "runTicks [] arr = Inr (arr, [])"
| "runTicks ((l, r) # ts) arr =
     (case XRInputSourceArray_update arr l r of
        Inl e \<Rightarrow> Inl e
      | Inr (arr', evs) \<Rightarrow>
          (case runTicks ts arr' of
             Inl e \<Rightarrow> Inl e
           | Inr (arr'', evss) \<Rightarrow> Inr (arr'', evs # evss)))"

text \<open>The select events of one side among the events of a tick, and the hand data of one
  side in the pair of a tick.\<close>

definition selectEvents :: "handedness \<Rightarrow> xrEvent list \<Rightarrow> xrEvent list" where
  "selectEvents side evs = filter (\<lambda>e. e = SelectStart side \<or> e = SelectEnd side) evs"

definition sideData :: "handedness \<Rightarrow> handData option \<times> handData option \<Rightarrow> handData option" where
  "sideData side t = (if side = LeftHand then fst t else snd t)"

text \<open>A hand datum as \<^verbatim>\<open>processHandLandmarks\<close> makes them, as far as the gesture code reads
  it: visible and with the ten joints up to the index finger tip.\<close>

definition gestureData :: "handData \<Rightarrow> bool" where
  "gestureData d \<longleftrightarrow> visible d \<and> 10 \<le> length (joints d)"

section \<open>Notions used in the statements about gestures\<close>

text \<open>Whether a hand datum is a pinch: the comparison of \<^verbatim>\<open>_detectGestures\<close> with the threshold
  0.05 that the constructor sets.\<close>

definition isPinch :: "handData \<Rightarrow> bool" where
  "isPinch d \<longleftrightarrow> pinchDist d < 0.05"

text \<open>The event of a tick for an input source that was pinching (\<open>p\<close>) and now is (\<open>q\<close>) or
  is not, and the events of a run of ticks.\<close>

definition edge :: "handedness \<Rightarrow> bool \<Rightarrow> bool \<Rightarrow> xrEvent list" where
  "edge side p q =
     (if q \<and> \<not> p then [SelectStart side] else if \<not> q \<and> p then [SelectEnd side] else [])"

fun edges :: "handedness \<Rightarrow> bool \<Rightarrow> bool list \<Rightarrow> xrEvent list list" where
  "edges side p [] = []"
| "edges side p (q # qs) = edge side p q # edges side q qs"

text \<open>An input source of a session without hand tracking, as the constructor makes it and
  every update keeps it; the state of one side of the array of such a session; the array of
  such a session.\<close>

definition gestureSource :: "handedness \<Rightarrow> nat \<Rightarrow> inputSource \<Rightarrow> bool" where
  "gestureSource side s h \<longleftrightarrow>
     src_handedness h = side \<and> \<not> src_handTrackingEnabled h \<and> src_session h = Some s
     \<and> pinchThreshold h = Some 0.05"

definition sideInv :: "handedness \<Rightarrow> nat \<Rightarrow> inputSource option \<Rightarrow> bool \<Rightarrow> bool" where
  "sideInv side s source active \<longleftrightarrow>
     (case source of None \<Rightarrow> \<not> active | Some h \<Rightarrow> gestureSource side s h)"

definition sidePinch :: "inputSource option \<Rightarrow> bool" where
  "sidePinch source = (case source of None \<Rightarrow> False | Some h \<Rightarrow> isPinching h)"

definition arrSide :: "handedness \<Rightarrow> inputSourceArray \<Rightarrow> inputSource option" where
  "arrSide side arr = (if side = LeftHand then leftHand arr else rightHand arr)"

definition arrInv :: "nat \<Rightarrow> inputSourceArray \<Rightarrow> bool" where
  "arrInv s arr \<longleftrightarrow>
     \<not> arr_handTrackingEnabled arr \<and> arr_session arr = Some s
     \<and> sideInv LeftHand s (leftHand arr) (leftHandActive arr)
     \<and> sideInv RightHand s (rightHand arr) (rightHandActive arr)"

text \<open>A test hand datum whose thumb tip and index finger tip are \<open>g\<close> apart.\<close>

definition pinchExample :: "real \<Rightarrow> handData" where
  "pinchExample g =
     \<lparr>joints = (replicate 25 \<lparr>position = Vec3 0 0 0, radius = 0.01\<rparr>)
                 [9 := \<lparr>position = Vec3 g 0 0, radius = 0.01\<rparr>],
      visible = True, palmNormal = Some (Vec3 0 1 0), handedness = Some LeftHand\<rparr>"

section \<open>Sessions, the camera and the frame loop\<close>

record renderState =
  baseLayer :: "nat option"
  depthNear :: real
  depthFar :: real
  inlineVerticalFieldOfView :: real

text \<open>The \<^verbatim>\<open>options\<close> of \<^verbatim>\<open>requestSession\<close>; a missing feature list is read as the empty one.\<close>

record sessionOptions =
  requiredFeatures :: "string list option"
  optionalFeatures :: "string list option"

text \<open>
  An \<^verbatim>\<open>XRSession\<close> object. \<^verbatim>\<open>_frameCallbacks\<close> maps the ids handed out by the session's
  \<^verbatim>\<open>requestAnimationFrame\<close> to the callbacks of the application, which the model keeps as
  opaque tokens; \<^verbatim>\<open>_animationFrameId\<close> is the handle of the window's \<^verbatim>\<open>requestAnimationFrame\<close>
  for the next iteration of the frame loop.
\<close>

record session =
  mode :: string
  environmentBlendMode :: string
  visibilityState :: string
  renderState :: renderState
  inputSources :: inputSourceArray
  options :: sessionOptions
  frameCallbacks :: "(nat \<times> nat) list"
  nextCallbackId :: nat
  animationFrameId :: "nat option"
  ended :: bool
  referenceSpaces :: "(string \<times> referenceSpace) list"

text \<open>The video element of the camera: its \<^verbatim>\<open>srcObject\<close>, a stream given by its tracks.\<close>

record video =
  srcObject :: "nat list option"

text \<open>
  The state of the page: the module-level variables \<^verbatim>\<open>videoElement\<close>, \<^verbatim>\<open>isTracking\<close>,
  \<^verbatim>\<open>currentSession\<close> and the tracking data; the session objects, a reference to a session
  being its index in \<open>sessions\<close>; the callbacks that the window's \<^verbatim>\<open>requestAnimationFrame\<close>
  has pending, each with its handle and the session whose loop it is, and the number of
  handles handed out; the camera tracks that are live; and the events dispatched so far, each
  with the session it was dispatched on.
\<close>

record system =
  videoElement :: "video option"
  isTracking :: bool
  currentSession :: "nat option"
  trackingData :: tracking
  sessions :: "session list"
  pendingFrames :: "(nat \<times> nat) list"
  frameHandles :: nat
  liveTracks :: "nat list"
  dispatched :: "(nat \<times> xrEvent) list"

definition initialSystem :: system where
  "initialSystem =
     \<lparr>videoElement = None, isTracking = False, currentSession = None,
      trackingData = initialTracking, sessions = [], pendingFrames = [], frameHandles = 0,
      liveTracks = [], dispatched = []\<rparr>"

text \<open>The window's \<^verbatim>\<open>requestAnimationFrame\<close> and \<^verbatim>\<open>cancelAnimationFrame\<close>. A handle is a positive
  integer, as HTML requires.\<close>

definition window_requestAnimationFrame :: "nat \<Rightarrow> system \<Rightarrow> nat \<times> system" where
  "window_requestAnimationFrame sid sys =
     (let h = Suc (frameHandles sys)
      in (h, sys\<lparr>pendingFrames := pendingFrames sys @ [(h, sid)], frameHandles := h\<rparr>))"

definition window_cancelAnimationFrame :: "nat \<Rightarrow> system \<Rightarrow> system" where
  "window_cancelAnimationFrame h sys =
     sys\<lparr>pendingFrames := filter (\<lambda>p. fst p \<noteq> h) (pendingFrames sys)\<rparr>"

text \<open>
  The constructor of \<^verbatim>\<open>XRSession\<close>: the new object, the settings of its input source array,
  and \<^verbatim>\<open>_startFrameLoop()\<close>, which requests the first iteration of the loop.
\<close>

definition XRSession :: "string \<Rightarrow> sessionOptions \<Rightarrow> system \<Rightarrow> nat \<times> system" where
  "XRSession m opts sys =
     (let sid = length (sessions sys);
          required = (case requiredFeatures opts of None \<Rightarrow> [] | Some fs \<Rightarrow> fs);
          optional = (case optionalFeatures opts of None \<Rightarrow> [] | Some fs \<Rightarrow> fs);
          this = \<lparr>mode = m,
                  environmentBlendMode = (if m = ''immersive-ar'' then ''alpha-blend'' else ''opaque''),
                  visibilityState = ''visible'',
                  renderState = \<lparr>baseLayer = None, depthNear = 0.1, depthFar = 1000.0,
                                 inlineVerticalFieldOfView = pi / 2\<rparr>,
                  inputSources = XRInputSourceArray
                    \<lparr>arr_handTrackingEnabled :=
                       ''hand-tracking'' \<in> set required \<or> ''hand-tracking'' \<in> set optional,
                     arr_session := Some sid\<rparr>,
                  options = opts,
                  frameCallbacks = [],
                  nextCallbackId = 1,
                  animationFrameId = None,
                  ended = False,
                  referenceSpaces = []\<rparr>;
          (h, sys1) = window_requestAnimationFrame sid (sys\<lparr>sessions := sessions sys @ [this]\<rparr>)
      in (sid, sys1\<lparr>sessions := (sessions sys1)[sid := this\<lparr>animationFrameId := Some h\<rparr>]\<rparr>))"

text \<open>
  \<^verbatim>\<open>XRSystem.requestSession( mode, options )\<close>: the result (the exception or the reference to
  the new session) and the state after the call. The loading of the models and the start of
  the camera are only set off here; their completion is a step of its own.
\<close>

definition requestSession :: "string \<Rightarrow> sessionOptions \<Rightarrow> system \<Rightarrow> (error + nat) \<times> system" where
  "requestSession m opts sys =
     (if currentSession sys \<noteq> None then (Inl InvalidStateError, sys)
      else
        let (sid, sys1) = XRSession m opts sys
        in (Inr sid, sys1\<lparr>currentSession := Some sid, isTracking := True\<rparr>))"

text \<open>\<^verbatim>\<open>startCamera()\<close> has resolved: the video element plays a stream with the given tracks.\<close>

definition cameraStarted :: "nat list \<Rightarrow> system \<Rightarrow> system" where
  "cameraStarted tracks sys =
     sys\<lparr>videoElement := Some \<lparr>srcObject = Some tracks\<rparr>, liveTracks := liveTracks sys @ tracks\<rparr>"

text \<open>\<^verbatim>\<open>stopCamera()\<close>: with a video element, every track of its stream is stopped and the
  element is removed.\<close>

definition stopCamera :: "system \<Rightarrow> system" where
  "stopCamera sys =
     (case videoElement sys of
        None \<Rightarrow> sys
      | Some v \<Rightarrow>
          sys\<lparr>liveTracks := (case srcObject v of
                               None \<Rightarrow> liveTracks sys
                             | Some ts \<Rightarrow> filter (\<lambda>t. t \<notin> set ts) (liveTracks sys)),
               videoElement := None\<rparr>)"

text \<open>
  \<^verbatim>\<open>XRSession.end()\<close> on the session object \<open>sid\<close> (the call needs the object, so a reference to
  no object does nothing). The handle is tested for truthiness before it is cancelled.
\<close>

definition session_end :: "nat \<Rightarrow> system \<Rightarrow> system" where
  "session_end sid sys =
     (if \<not> sid < length (sessions sys) then sys
      else
        let sys1 = sys\<lparr>sessions := (sessions sys)[sid := (sessions sys ! sid)\<lparr>ended := True\<rparr>],
                       isTracking := False\<rparr>;
            sys2 = (case animationFrameId (sessions sys1 ! sid) of
                      None \<Rightarrow> sys1
                    | Some h \<Rightarrow> if h = 0 then sys1 else window_cancelAnimationFrame h sys1);
            sys3 = stopCamera sys2
        in sys3\<lparr>currentSession := None, dispatched := dispatched sys3 @ [(sid, SessionEnd)]\<rparr>)"

text \<open>
  \<^verbatim>\<open>processFrame()\<close>. What the detectors return for a new camera frame is an input; \<open>None\<close>
  stands for a tick on which the video or the models are not ready or the video time has not
  changed. An exception leaves the tracking data as far as they were assigned.
\<close>

record frameInput =
  faceRes :: faceResults
  handRes :: "detectedHand list"

definition processFrame :: "frameInput option \<Rightarrow> system \<Rightarrow> system \<times> error option" where
  "processFrame input sys =
     (if \<not> isTracking sys \<or> videoElement sys = None then (sys, None)
      else
        case input of
          None \<Rightarrow> (sys, None)
        | Some inp \<Rightarrow>
            (case processFace (faceRes inp) (trackingData sys) of
               Inl e \<Rightarrow> (sys, Some e)
             | Inr tr1 \<Rightarrow>
                 (let (tr2, err) = processHands (handRes inp)
                                     (tr1\<lparr>leftHandData := None, rightHandData := None\<rparr>)
                  in (sys\<lparr>trackingData := tr2\<rparr>, err))))"

text \<open>
  One call of \<^verbatim>\<open>loop\<close>, the callback that the window runs for the handle \<open>h\<close> of the session
  \<open>sid\<close>: nothing for an ended session; otherwise the tracking update, the update of the
  input sources, the emptying of the frame callbacks and the request for the next iteration.
  The frame callbacks are code of the application and are not run in the model. An exception
  leaves the loop without a request for the next iteration.
\<close>

definition loop :: "nat \<Rightarrow> nat \<Rightarrow> frameInput option \<Rightarrow> system \<Rightarrow> system \<times> error option" where
  "loop sid h input sys =
     (let sys0 = sys\<lparr>pendingFrames := filter (\<lambda>p. fst p \<noteq> h) (pendingFrames sys)\<rparr> in
      if \<not> sid < length (sessions sys0) \<or> ended (sessions sys0 ! sid) then (sys0, None)
      else
        case processFrame input sys0 of
          (sys1, Some e) \<Rightarrow> (sys1, Some e)
        | (sys1, None) \<Rightarrow>
            (let this = sessions sys1 ! sid in
             case XRInputSourceArray_update (inputSources this)
                    (leftHandData (trackingData sys1)) (rightHandData (trackingData sys1)) of
               Inl e \<Rightarrow> (sys1, Some e)
             | Inr (arr, evs) \<Rightarrow>
                 (let this1 = this\<lparr>inputSources := arr, frameCallbacks := []\<rparr>;
                      sys2 = sys1\<lparr>sessions := (sessions sys1)[sid := this1],
                                   dispatched := dispatched sys1 @ map (Pair sid) evs\<rparr>;
                      (h', sys3) = window_requestAnimationFrame sid sys2
                  in (sys3\<lparr>sessions := (sessions sys3)[sid := this1\<lparr>animationFrameId := Some h'\<rparr>]\<rparr>,
                      None))))"

text \<open>A test state: the page after its first \<^verbatim>\<open>requestSession( 'immersive-vr' )\<close>, and the same
  with the camera started on one track.\<close>

definition exampleOptions :: sessionOptions where
  "exampleOptions = \<lparr>requiredFeatures = None, optionalFeatures = Some [''local-floor'']\<rparr>"

definition activeSystem :: system where
  "activeSystem = snd (requestSession ''immersive-vr'' exampleOptions initialSystem)"

definition cameraSystem :: system where
  "cameraSystem = cameraStarted [7] activeSystem"

text \<open>
  The page after this run of calls: \<^verbatim>\<open>s0 = requestSession( 'immersive-vr' )\<close>, \<^verbatim>\<open>s0.end()\<close>,
  \<^verbatim>\<open>s1 = requestSession( 'inline' )\<close>, and \<^verbatim>\<open>s0.end()\<close> once more. \<open>secondSystem\<close> is the state
  before the last of these calls.
\<close>

definition secondSystem :: system where
  "secondSystem = snd (requestSession ''inline'' exampleOptions (session_end 0 activeSystem))"

definition staleEndSystem :: system where
  "staleEndSystem = session_end 0 secondSystem"

section \<open>The viewer pose\<close>

lemma viewer_position:
  "t_position (transform (getViewerPose tr rs)) =
     Vec3 (vec_x (headPosition tr) - vec_x (offsetPosition (originOffset rs)))
          (vec_y (headPosition tr) + floorOffset (ref_type rs) - vec_y (offsetPosition (originOffset rs)))
          (vec_z (headPosition tr) - vec_z (offsetPosition (originOffset rs)))"
  by (cases "originOffset rs")
     (simp_all add: getViewerPose_def XRViewerPose_def XRRigidTransform_def floorOffset_def
        offsetPosition_def Let_def)

text \<open>
  C6. The position of the pose that \<open>getViewerPose\<close> returns is the head position, plus the
  standing height 1.8 on \<open>y\<close> for the types \<open>local-floor\<close> and \<open>bounded-floor\<close> and plus
  nothing for \<open>viewer\<close> and \<open>local\<close>, minus the position of the origin offset of the reference
  space when it has one. With the head at the origin and the offset (1,0,0) on a space whose
  type is not a floor type, the position is (-1,0,0).
\<close>

theorem C6_viewer_pose_position:
  "t_position (transform (getViewerPose tr rs)) =
     Vec3 (vec_x (headPosition tr) - vec_x (offsetPosition (originOffset rs)))
          (vec_y (headPosition tr)
             + (if ref_type rs = ''local-floor'' \<or> ref_type rs = ''bounded-floor'' then 1.8 else 0)
             - vec_y (offsetPosition (originOffset rs)))
          (vec_z (headPosition tr) - vec_z (offsetPosition (originOffset rs)))
   \<and> floorOffset ''local-floor'' = 1.8 \<and> floorOffset ''bounded-floor'' = 1.8
   \<and> floorOffset ''viewer'' = 0 \<and> floorOffset ''local'' = 0
   \<and> offsetPosition None = Vec3 0 0 0
   \<and> offsetPosition (Some off) = t_position off
   \<and> originOffset (getOffsetReferenceSpace base (Some off)) = Some off
   \<and> ref_type (getOffsetReferenceSpace base (Some off)) = ref_type base
   \<and> (ref_type base \<noteq> ''local-floor'' \<and> ref_type base \<noteq> ''bounded-floor''
        \<and> headPosition tr = Vec3 0 0 0 \<and> t_position off = Vec3 1 0 0
      \<longrightarrow> t_position (transform (getViewerPose tr (getOffsetReferenceSpace base (Some off))))
            = Vec3 (- 1) 0 0)"
  by (simp add: viewer_position floorOffset_def offsetPosition_def config_standingHeight_def
        getOffsetReferenceSpace_def XRReferenceSpace_def)

theorem C6_viewer_pose_position_witness:
  "ref_type (XRReferenceSpace ''local'') \<noteq> ''local-floor''
   \<and> ref_type (XRReferenceSpace ''local'') \<noteq> ''bounded-floor''
   \<and> headPosition (initialTracking\<lparr>headPosition := Vec3 0 0 0\<rparr>) = Vec3 0 0 0
   \<and> t_position (XRRigidTransform (Some (Vec3 1 0 0)) None) = Vec3 1 0 0
   \<and> t_position (transform (getViewerPose (initialTracking\<lparr>headPosition := Vec3 0 0 0\<rparr>)
        (getOffsetReferenceSpace (XRReferenceSpace ''local'')
           (Some (XRRigidTransform (Some (Vec3 1 0 0)) None))))) = Vec3 (- 1) 0 0"
  using C6_viewer_pose_position
    [of "initialTracking\<lparr>headPosition := Vec3 0 0 0\<rparr>"
        "getOffsetReferenceSpace (XRReferenceSpace ''local'')
           (Some (XRRigidTransform (Some (Vec3 1 0 0)) None))"
        "XRRigidTransform (Some (Vec3 1 0 0)) None"
        "XRReferenceSpace ''local''"]
  by (simp add: XRReferenceSpace_def XRRigidTransform_def initialTracking_def)

text \<open>
  C9. Whatever the reference space and whatever origin offset it carries, the orientation of
  the viewer pose is the current head orientation: the orientation of the offset is never
  read. The position only has the position of the offset subtracted, component by component,
  so two offsets with the same position and different orientations give the same pose.
\<close>

theorem C9_offset_orientation_ignored:
  "t_orientation (transform (getViewerPose tr rs)) = headRotation tr
   \<and> t_orientation (transform (getViewerPose tr (getOffsetReferenceSpace base (Some off))))
       = headRotation tr
   \<and> t_position (transform (getViewerPose tr (getOffsetReferenceSpace base (Some off)))) =
       Vec3 (vec_x (headPosition tr) - vec_x (t_position off))
            (vec_y (headPosition tr) + floorOffset (ref_type base) - vec_y (t_position off))
            (vec_z (headPosition tr) - vec_z (t_position off))
   \<and> getViewerPose tr (getOffsetReferenceSpace base (Some (off\<lparr>t_orientation := q\<rparr>)))
       = getViewerPose tr (getOffsetReferenceSpace base (Some off))"
  by (simp add: getViewerPose_def XRViewerPose_def XRRigidTransform_def floorOffset_def
        getOffsetReferenceSpace_def XRReferenceSpace_def Let_def)

section \<open>The quaternion of a rotation matrix\<close>

lemma sq4: "sqrt (4 * (w * w)) = 2 * \<bar>w\<bar>" for w :: real
proof -
  have "4 * (w * w) = (2 * w)\<^sup>2" by (simp add: power2_eq_square)
  then show ?thesis by (simp only: real_sqrt_abs)
qed

lemma sq_less_nz: "a * a < b * b \<Longrightarrow> b \<noteq> 0" for a b :: real
  using mult_nonneg_nonneg [of a a] by (cases "b = 0") (auto simp: not_less)

lemma rotation_of_matrix:
  "rotationToQuaternion (matrix \<lparr>t_position = p, t_orientation = Quat x y z w\<rparr>) =
     matrixToQuaternion
       (1 - (y * (y + y) + z * (z + z))) (x * (y + y) - w * (z + z)) (x * (z + z) + w * (y + y))
       (x * (y + y) + w * (z + z)) (1 - (x * (x + x) + z * (z + z))) (y * (z + z) - w * (x + x))
       (x * (z + z) - w * (y + y)) (y * (z + z) + w * (x + x)) (1 - (x * (x + x) + y * (y + y)))"
  by (simp add: rotationToQuaternion_def matrix_def Let_def)

lemma raw_roundtrip:
  assumes u: "x * x + y * y + z * z + w * w = (1::real)"
  shows "rotationToQuaternion (matrix \<lparr>t_position = p, t_orientation = Quat x y z w\<rparr>) = Quat x y z w
       \<or> rotationToQuaternion (matrix \<lparr>t_position = p, t_orientation = Quat x y z w\<rparr>) = Quat (-x) (-y) (-z) (-w)"
proof -
  define m11 where "m11 = 1 - (y * (y + y) + z * (z + z))"
  define m22 where "m22 = 1 - (x * (x + x) + z * (z + z))"
  define m33 where "m33 = 1 - (x * (x + x) + y * (y + y))"
  define m12 where "m12 = x * (y + y) - w * (z + z)"
  define m13 where "m13 = x * (z + z) + w * (y + y)"
  define m21 where "m21 = x * (y + y) + w * (z + z)"
  define m23 where "m23 = y * (z + z) - w * (x + x)"
  define m31 where "m31 = x * (z + z) - w * (y + y)"
  define m32 where "m32 = y * (z + z) + w * (x + x)"
  note defs = m11_def m22_def m33_def m12_def m13_def m21_def m23_def m31_def m32_def
  have R: "rotationToQuaternion (matrix \<lparr>t_position = p, t_orientation = Quat x y z w\<rparr>)
             = matrixToQuaternion m11 m12 m13 m21 m22 m23 m31 m32 m33"
    unfolding defs by (rule rotation_of_matrix)
  have tr: "m11 + m22 + m33 + 1.0 = 4 * (w * w)" using u by (simp add: defs algebra_simps)
  have a1: "1.0 + m11 - m22 - m33 = 4 * (x * x)" by (simp add: defs algebra_simps)
  have a2: "1.0 + m22 - m11 - m33 = 4 * (y * y)" by (simp add: defs algebra_simps)
  have a3: "1.0 + m33 - m11 - m22 = 4 * (z * z)" by (simp add: defs algebra_simps)
  have c12: "m11 > m22 \<longleftrightarrow> y * y < x * x" by (simp add: defs algebra_simps)
  have c13: "m11 > m33 \<longleftrightarrow> z * z < x * x" by (simp add: defs algebra_simps)
  have c23: "m22 > m33 \<longleftrightarrow> z * z < y * y" by (simp add: defs algebra_simps)
  have d: "m32 - m23 = 4 * (w * x)" "m13 - m31 = 4 * (w * y)" "m21 - m12 = 4 * (w * z)"
          "m12 + m21 = 4 * (x * y)" "m13 + m31 = 4 * (x * z)" "m23 + m32 = 4 * (y * z)"
    by (simp_all add: defs algebra_simps)
  consider (A) "m11 + m22 + m33 > 0"
    | (B) "\<not> m11 + m22 + m33 > 0" "m11 > m22 \<and> m11 > m33"
    | (C) "\<not> m11 + m22 + m33 > 0" "\<not> (m11 > m22 \<and> m11 > m33)" "m22 > m33"
    | (D) "\<not> m11 + m22 + m33 > 0" "\<not> (m11 > m22 \<and> m11 > m33)" "\<not> m22 > m33"
    by blast
  then have "matrixToQuaternion m11 m12 m13 m21 m22 m23 m31 m32 m33 = Quat x y z w
       \<or> matrixToQuaternion m11 m12 m13 m21 m22 m23 m31 m32 m33 = Quat (-x) (-y) (-z) (-w)"
  proof cases
    case A
    have nz: "w \<noteq> 0" using A tr by auto
    have "matrixToQuaternion m11 m12 m13 m21 m22 m23 m31 m32 m33 =
            Quat (4 * (w * x) * (0.5 / (2 * \<bar>w\<bar>))) (4 * (w * y) * (0.5 / (2 * \<bar>w\<bar>)))
                 (4 * (w * z) * (0.5 / (2 * \<bar>w\<bar>))) (0.25 / (0.5 / (2 * \<bar>w\<bar>)))"
      using A by (simp only: matrixToQuaternion_def Let_def if_True tr sq4 d)
    then show ?thesis using nz by (cases "w > 0") (simp_all add: field_simps)
  next
    case B
    have nz: "x \<noteq> 0" using B c12 sq_less_nz by blast
    have "matrixToQuaternion m11 m12 m13 m21 m22 m23 m31 m32 m33 =
            Quat (0.25 * (2.0 * (2 * \<bar>x\<bar>))) (4 * (x * y) / (2.0 * (2 * \<bar>x\<bar>)))
                 (4 * (x * z) / (2.0 * (2 * \<bar>x\<bar>))) (4 * (w * x) / (2.0 * (2 * \<bar>x\<bar>)))"
      using B by (simp only: matrixToQuaternion_def Let_def if_True if_False a1 sq4 d simp_thms)
    then show ?thesis using nz by (cases "x > 0") (simp_all add: field_simps)
  next
    case C
    have nz: "y \<noteq> 0" using C c23 sq_less_nz by blast
    have "matrixToQuaternion m11 m12 m13 m21 m22 m23 m31 m32 m33 =
            Quat (4 * (x * y) / (2.0 * (2 * \<bar>y\<bar>))) (0.25 * (2.0 * (2 * \<bar>y\<bar>)))
                 (4 * (y * z) / (2.0 * (2 * \<bar>y\<bar>))) (4 * (w * y) / (2.0 * (2 * \<bar>y\<bar>)))"
      using C by (simp only: matrixToQuaternion_def Let_def if_True if_False a2 sq4 d simp_thms)
    then show ?thesis using nz by (cases "y > 0") (simp_all add: field_simps)
  next
    case D
    have nz: "z \<noteq> 0"
    proof
      assume z0: "z = 0"
      from D(3) c23 have "y * y \<le> z * z" by simp
      with z0 have "y * y = 0" using zero_le_square [of y] by simp
      then have y0: "y = 0" by simp
      from D(1) tr have "4 * (w * w) \<le> 1" by simp
      with u z0 y0 have "x * x > 0" by simp
      with D(2) c12 c13 z0 y0 show False by simp
    qed
    have "matrixToQuaternion m11 m12 m13 m21 m22 m23 m31 m32 m33 =
            Quat (4 * (x * z) / (2.0 * (2 * \<bar>z\<bar>))) (4 * (y * z) / (2.0 * (2 * \<bar>z\<bar>)))
                 (0.25 * (2.0 * (2 * \<bar>z\<bar>))) (4 * (w * z) / (2.0 * (2 * \<bar>z\<bar>)))"
      using D by (simp only: matrixToQuaternion_def Let_def if_True if_False a3 sq4 d simp_thms)
    then show ?thesis using nz by (cases "z > 0") (simp_all add: field_simps)
  qed
  then show ?thesis by (simp only: R)
qed

lemma sumsq_quat_neg: "sumsq (quat_neg q) = sumsq q"
  by (simp add: sumsq_def quat_neg_def)

lemma normalizeQuat_unit: "sumsq q = 1 \<Longrightarrow> normalizeQuat q = q"
  by (cases q) (simp add: normalizeQuat_def sumsq_def)

text \<open>
  C1. For a unit quaternion \<open>q\<close> (and any position), the column-major matrix that
  \<^verbatim>\<open>XRRigidTransform.matrix\<close> builds from \<open>q\<close>, read back by the trace-based extraction and
  normalized, is \<open>q\<close> or \<open>- q\<close>. (The head-pose update then negates the \<open>x\<close> of this result,
  which is a step of that update and not of the extraction.)
\<close>

theorem C1_quaternion_roundtrip:
  assumes "unitQuat q"
  shows "quaternionFromRotationMatrix (matrix (XRRigidTransform p (Some q))) = q
       \<or> quaternionFromRotationMatrix (matrix (XRRigidTransform p (Some q))) = quat_neg q"
proof -
  obtain x y z w where q: "q = Quat x y z w" by (cases q)
  obtain v where t: "XRRigidTransform p (Some (Quat x y z w)) =
      \<lparr>t_position = v, t_orientation = Quat x y z w\<rparr>"
    by (simp add: XRRigidTransform_def)
  from assms have u: "x * x + y * y + z * z + w * w = 1" by (simp add: unitQuat_def sumsq_def q)
  from assms have n1: "normalizeQuat q = q" by (simp add: unitQuat_def normalizeQuat_unit)
  from assms have n2: "normalizeQuat (quat_neg q) = quat_neg q"
    by (simp add: unitQuat_def normalizeQuat_unit sumsq_quat_neg)
  have "rotationToQuaternion (matrix (XRRigidTransform p (Some q))) = q
      \<or> rotationToQuaternion (matrix (XRRigidTransform p (Some q))) = quat_neg q"
    using raw_roundtrip [OF u, of v] by (simp add: q t quat_neg_def)
  then show ?thesis using n1 n2 by (auto simp: quaternionFromRotationMatrix_def)
qed

theorem C1_quaternion_roundtrip_witness:
  "unitQuat (Quat (3 / 5) 0 0 (- (4 / 5)))
   \<and> (quaternionFromRotationMatrix (matrix (XRRigidTransform None (Some (Quat (3 / 5) 0 0 (- (4 / 5))))))
        = Quat (3 / 5) 0 0 (- (4 / 5))
      \<or> quaternionFromRotationMatrix (matrix (XRRigidTransform None (Some (Quat (3 / 5) 0 0 (- (4 / 5))))))
        = quat_neg (Quat (3 / 5) 0 0 (- (4 / 5))))"
proof -
  have u: "unitQuat (Quat (3 / 5) 0 0 (- (4 / 5)))" by (simp add: unitQuat_def sumsq_def)
  from u C1_quaternion_roundtrip [OF u, of None] show ?thesis by simp
qed

section \<open>The head orientation stays a unit quaternion\<close>

lemma sumsq_pos:
  "quat_x q \<noteq> 0 \<or> quat_y q \<noteq> 0 \<or> quat_z q \<noteq> 0 \<or> quat_w q \<noteq> 0 \<Longrightarrow> 0 < sumsq q"
proof -
  assume a: "quat_x q \<noteq> 0 \<or> quat_y q \<noteq> 0 \<or> quat_z q \<noteq> 0 \<or> quat_w q \<noteq> 0"
  have nn: "0 \<le> quat_x q * quat_x q" "0 \<le> quat_y q * quat_y q" "0 \<le> quat_z q * quat_z q"
    "0 \<le> quat_w q * quat_w q" by simp_all
  have p: "\<And>c::real. c \<noteq> 0 \<Longrightarrow> 0 < c * c" by (auto simp add: zero_less_mult_iff)
  from a nn p [of "quat_x q"] p [of "quat_y q"] p [of "quat_z q"] p [of "quat_w q"]
  show ?thesis unfolding sumsq_def by linarith
qed

lemma matrixToQuaternion_nonzero:
  "0 < sumsq (matrixToQuaternion m11 m12 m13 m21 m22 m23 m31 m32 m33)"
proof -
  consider (A) "m11 + m22 + m33 > 0"
    | (B) "\<not> m11 + m22 + m33 > 0" "m11 > m22 \<and> m11 > m33"
    | (C) "\<not> m11 + m22 + m33 > 0" "\<not> (m11 > m22 \<and> m11 > m33)" "m22 > m33"
    | (D) "\<not> m11 + m22 + m33 > 0" "\<not> (m11 > m22 \<and> m11 > m33)" "\<not> m22 > m33"
    by blast
  then show ?thesis
  proof cases
    case A
    then have "0 < sqrt (m11 + m22 + m33 + 1.0)" by simp
    then have "quat_w (matrixToQuaternion m11 m12 m13 m21 m22 m23 m31 m32 m33) \<noteq> 0"
      using A by (simp add: matrixToQuaternion_def Let_def)
    then show ?thesis by (simp add: sumsq_pos)
  next
    case B
    then have "0 < 1.0 + m11 - m22 - m33" by simp
    then have "0 < sqrt (1.0 + m11 - m22 - m33)" by (simp only: real_sqrt_gt_0_iff)
    then have "quat_x (matrixToQuaternion m11 m12 m13 m21 m22 m23 m31 m32 m33) \<noteq> 0"
      using B by (simp add: matrixToQuaternion_def Let_def)
    then show ?thesis by (simp add: sumsq_pos)
  next
    case C
    then have "0 < 1.0 + m22 - m11 - m33" by auto
    then have "0 < sqrt (1.0 + m22 - m11 - m33)" by (simp only: real_sqrt_gt_0_iff)
    then have "quat_y (matrixToQuaternion m11 m12 m13 m21 m22 m23 m31 m32 m33) \<noteq> 0"
      using C by (auto simp add: matrixToQuaternion_def Let_def)
    then show ?thesis by (simp add: sumsq_pos)
  next
    case D
    then have "0 < 1.0 + m33 - m11 - m22" by auto
    then have "0 < sqrt (1.0 + m33 - m11 - m22)" by (simp only: real_sqrt_gt_0_iff)
    then have "quat_z (matrixToQuaternion m11 m12 m13 m21 m22 m23 m31 m32 m33) \<noteq> 0"
      using D by (auto simp add: matrixToQuaternion_def Let_def)
    then show ?thesis by (simp add: sumsq_pos)
  qed
qed

lemma normalize_unit:
  fixes a b c d :: real
  assumes "0 < a * a + b * b + c * c + d * d"
  defines "n \<equiv> sqrt (a * a + b * b + c * c + d * d)"
  shows "(a / n) * (a / n) + (b / n) * (b / n) + (c / n) * (c / n) + (d / n) * (d / n) = 1"
proof -
  have n: "n * n = a * a + b * b + c * c + d * d" using assms by (simp add: n_def)
  have nz: "n \<noteq> 0" using assms by (simp add: n_def)
  have "(a / n) * (a / n) + (b / n) * (b / n) + (c / n) * (c / n) + (d / n) * (d / n)
        = (a * a + b * b + c * c + d * d) / (n * n)"
    by (simp add: add_divide_distrib)
  also have "\<dots> = (n * n) / (n * n)" by (simp only: n)
  also have "\<dots> = 1" using nz by simp
  finally show ?thesis .
qed

lemma lerp_unit_nonzero:
  fixes a b c d :: real
  assumes h: "a * a + b * b + c * c + d * d = 1" and t: "e * e + f * f + g * g + k * k = 1"
  shows "0 < lerp a e (1 - config_smoothing) * lerp a e (1 - config_smoothing)
           + lerp b f (1 - config_smoothing) * lerp b f (1 - config_smoothing)
           + lerp c g (1 - config_smoothing) * lerp c g (1 - config_smoothing)
           + lerp d k (1 - config_smoothing) * lerp d k (1 - config_smoothing)"
proof (rule ccontr)
  let ?A = "lerp a e (1 - config_smoothing)" and ?B = "lerp b f (1 - config_smoothing)"
  and ?C = "lerp c g (1 - config_smoothing)" and ?D = "lerp d k (1 - config_smoothing)"
  assume "\<not> 0 < ?A * ?A + ?B * ?B + ?C * ?C + ?D * ?D"
  moreover have "0 \<le> ?A * ?A" "0 \<le> ?B * ?B" "0 \<le> ?C * ?C" "0 \<le> ?D * ?D" by simp_all
  ultimately have "?A * ?A = 0" "?B * ?B = 0" "?C * ?C = 0" "?D * ?D = 0" by linarith+
  then have z: "?A = 0" "?B = 0" "?C = 0" "?D = 0" by simp_all
  have e: "a = - (3 / 7) * e" "b = - (3 / 7) * f" "c = - (3 / 7) * g" "d = - (3 / 7) * k"
    using z unfolding lerp_def config_smoothing_def by argo+
  have "a * a + b * b + c * c + d * d = (9 / 49) * (e * e + f * f + g * g + k * k)"
    unfolding e by (simp add: algebra_simps)
  with h t show False by simp
qed


lemma normalize_unitQuat:
  assumes "0 < sumsq q"
  shows "sumsq (Quat (quat_x q / sqrt (sumsq q)) (quat_y q / sqrt (sumsq q))
                     (quat_z q / sqrt (sumsq q)) (quat_w q / sqrt (sumsq q))) = 1"
  using normalize_unit [of "quat_x q" "quat_y q" "quat_z q" "quat_w q"] assms
  by (simp add: sumsq_def)

lemma lerp_unitQuat_nonzero:
  assumes "sumsq h = 1" and "sumsq t = 1"
  shows "0 < sumsq (Quat (lerp (quat_x h) (quat_x t) (1 - config_smoothing))
                         (lerp (quat_y h) (quat_y t) (1 - config_smoothing))
                         (lerp (quat_z h) (quat_z t) (1 - config_smoothing))
                         (lerp (quat_w h) (quat_w t) (1 - config_smoothing)))"
  using lerp_unit_nonzero [of "quat_x h" "quat_y h" "quat_z h" "quat_w h"
      "quat_x t" "quat_y t" "quat_z t" "quat_w t"] assms
  by (simp add: sumsq_def)

lemma updateHeadFromMatrix_unit:
  assumes u: "unitQuat (headRotation tr)" and l: "16 \<le> length m"
  shows "\<exists>tr'. updateHeadFromMatrix m tr = Inr tr' \<and> unitQuat (headRotation tr')"
proof -
  let ?q = "rotationToQuaternion m"
  let ?len = "sqrt (sumsq ?q)"
  let ?t = "Quat (- quat_x ?q / ?len) (quat_y ?q / ?len) (quat_z ?q / ?len) (quat_w ?q / ?len)"
  let ?h = "Quat (lerp (quat_x (headRotation tr)) (quat_x ?t) (1 - config_smoothing))
                 (lerp (quat_y (headRotation tr)) (quat_y ?t) (1 - config_smoothing))
                 (lerp (quat_z (headRotation tr)) (quat_z ?t) (1 - config_smoothing))
                 (lerp (quat_w (headRotation tr)) (quat_w ?t) (1 - config_smoothing))"
  let ?rlen = "sqrt (sumsq ?h)"
  let ?r = "Quat (quat_x ?h / ?rlen) (quat_y ?h / ?rlen) (quat_z ?h / ?rlen) (quat_w ?h / ?rlen)"
  let ?hp = "Vec3 (lerp (vec_x (headPosition tr)) (- (m ! 12) * 0.02) (1 - config_smoothing))
                  (lerp (vec_y (headPosition tr)) (- (m ! 13) * 0.02) (1 - config_smoothing))
                  (lerp (vec_z (headPosition tr)) (- (m ! 14 + 50) * 0.02) (1 - config_smoothing))"
  have E: "updateHeadFromMatrix m tr =
          (if ?len = 0 \<or> ?rlen = 0 then Inl NotANumber
           else Inr (tr\<lparr>headPosition := ?hp, headRotation := ?r\<rparr>))"
    using l by (simp add: updateHeadFromMatrix_def Let_def sumsq_def power2_eq_square)
  have qpos: "0 < sumsq ?q" unfolding rotationToQuaternion_def by (rule matrixToQuaternion_nonzero)
  then have lenpos: "?len \<noteq> 0" by simp
  have "sumsq ?t = sumsq (Quat (quat_x ?q / ?len) (quat_y ?q / ?len) (quat_z ?q / ?len) (quat_w ?q / ?len))"
    by (simp add: sumsq_def)
  with normalize_unitQuat [OF qpos] have tu: "sumsq ?t = 1" by simp
  from u have hu: "sumsq (headRotation tr) = 1" by (simp add: unitQuat_def)
  have hpos: "0 < sumsq ?h" by (rule lerp_unitQuat_nonzero [OF hu tu])
  then have rpos: "?rlen \<noteq> 0" by simp
  have ru: "unitQuat ?r" unfolding unitQuat_def by (rule normalize_unitQuat [OF hpos])
  from E lenpos rpos
  have "updateHeadFromMatrix m tr = Inr (tr\<lparr>headPosition := ?hp, headRotation := ?r\<rparr>)"
    by (simp only: simp_thms if_False)
  with ru show ?thesis by simp
qed

lemma updateHeadFromLandmarks_rotation:
  "updateHeadFromLandmarks l tr = Inr tr' \<Longrightarrow> headRotation tr' = headRotation tr"
  by (auto simp: updateHeadFromLandmarks_def Let_def split: if_splits)

lemma updateHeadFromLandmarks_returns:
  "2 \<le> length l \<Longrightarrow> \<exists>tr'. updateHeadFromLandmarks l tr = Inr tr'"
  by (simp add: updateHeadFromLandmarks_def Let_def)


lemma updateHeadFromLandmarks_unit:
  assumes "unitQuat (headRotation tr)" and "2 \<le> length l"
  shows "\<exists>tr'. updateHeadFromLandmarks l tr = Inr tr' \<and> unitQuat (headRotation tr')"
  using assms by (simp add: updateHeadFromLandmarks_def Let_def)

lemma processFace_unit:
  assumes "unitQuat (headRotation tr)" and "wellFormedFace f"
  shows "\<exists>tr'. processFace f tr = Inr tr' \<and> unitQuat (headRotation tr')"
  using assms updateHeadFromMatrix_unit [of tr] updateHeadFromLandmarks_unit [of tr]
  by (auto simp: processFace_def wellFormedFace_def split: option.splits list.splits)

lemma processFaces_unit:
  "unitQuat (headRotation tr) \<Longrightarrow> list_all wellFormedFace fs \<Longrightarrow>
     \<exists>tr'. processFaces fs tr = Inr tr' \<and> unitQuat (headRotation tr')"
proof (induction fs arbitrary: tr)
  case Nil
  then show ?case by simp
next
  case (Cons f fs)
  from Cons.prems have "wellFormedFace f" and rest: "list_all wellFormedFace fs" by simp_all
  from processFace_unit [OF Cons.prems(1) this(1)] obtain tr1 where
    s: "processFace f tr = Inr tr1" and u: "unitQuat (headRotation tr1)" by blast
  from Cons.IH [OF u rest] s show ?case by simp
qed

text \<open>
  C4. From a unit head orientation, an update from a facial transformation matrix (any
  sixteen numbers: lerp of each component toward the extracted target, then the division by
  the length) returns, and returns a unit head orientation; the landmark path returns the
  orientation it was given; and so every run of well-formed detector results, on whichever
  path each of them takes, returns with a unit head orientation.
\<close>

theorem C4_head_orientation_unit:
  assumes "unitQuat (headRotation tr)"
  shows "(16 \<le> length m \<longrightarrow>
            (\<exists>tr'. updateHeadFromMatrix m tr = Inr tr' \<and> unitQuat (headRotation tr')))
       \<and> (2 \<le> length l \<longrightarrow>
            (\<exists>tr'. updateHeadFromLandmarks l tr = Inr tr' \<and> headRotation tr' = headRotation tr))
       \<and> (list_all wellFormedFace fs \<longrightarrow>
            (\<exists>tr'. processFaces fs tr = Inr tr' \<and> unitQuat (headRotation tr')))"
proof (intro conjI impI)
  assume "16 \<le> length m"
  with assms show "\<exists>tr'. updateHeadFromMatrix m tr = Inr tr' \<and> unitQuat (headRotation tr')"
    by (rule updateHeadFromMatrix_unit)
next
  assume "2 \<le> length l"
  then show "\<exists>tr'. updateHeadFromLandmarks l tr = Inr tr' \<and> headRotation tr' = headRotation tr"
    by (simp add: updateHeadFromLandmarks_def Let_def)
next
  assume "list_all wellFormedFace fs"
  with assms show "\<exists>tr'. processFaces fs tr = Inr tr' \<and> unitQuat (headRotation tr')"
    by (rule processFaces_unit)
qed

theorem C4_head_orientation_unit_witness:
  "unitQuat (headRotation initialTracking)
   \<and> 16 \<le> length [1, 0, 0, 0, 0, 1, 0, 0, 0, 0, 1, 0, 2, 3, - 40 :: real, 1]
   \<and> (\<exists>tr'. updateHeadFromMatrix [1, 0, 0, 0, 0, 1, 0, 0, 0, 0, 1, 0, 2, 3, - 40, 1]
                initialTracking = Inr tr' \<and> unitQuat (headRotation tr'))
   \<and> 2 \<le> length [Vec3 0.5 0.5 0, Vec3 0.4 0.6 0]
   \<and> (\<exists>tr'. updateHeadFromLandmarks [Vec3 0.5 0.5 0, Vec3 0.4 0.6 0] initialTracking = Inr tr'
              \<and> headRotation tr' = headRotation initialTracking)
   \<and> list_all wellFormedFace
        [\<lparr>facialTransformationMatrixes = Some [[0, 0, 1, 0, 0, 1, 0, 0, - 1, 0, 0, 0, 0, 0, 0, 1]],
          faceLandmarks = None\<rparr>,
         \<lparr>facialTransformationMatrixes = Some [],
          faceLandmarks = Some [[Vec3 0.5 0.5 0, Vec3 0.4 0.6 0]]\<rparr>]
   \<and> (\<exists>tr'. processFaces
                [\<lparr>facialTransformationMatrixes = Some [[0, 0, 1, 0, 0, 1, 0, 0, - 1, 0, 0, 0, 0, 0, 0, 1]],
                  faceLandmarks = None\<rparr>,
                 \<lparr>facialTransformationMatrixes = Some [],
                  faceLandmarks = Some [[Vec3 0.5 0.5 0, Vec3 0.4 0.6 0]]\<rparr>]
                initialTracking = Inr tr' \<and> unitQuat (headRotation tr'))"
proof -
  have u: "unitQuat (headRotation initialTracking)"
    by (simp add: initialTracking_def unitQuat_def sumsq_def)
  have w: "list_all wellFormedFace
        [\<lparr>facialTransformationMatrixes = Some [[0, 0, 1, 0, 0, 1, 0, 0, - 1, 0, 0, 0, 0, 0, 0, 1]],
          faceLandmarks = None\<rparr>,
         \<lparr>facialTransformationMatrixes = Some [],
          faceLandmarks = Some [[Vec3 0.5 0.5 0, Vec3 0.4 0.6 0]]\<rparr>]"
    by (simp add: wellFormedFace_def)
  from u w
    C4_head_orientation_unit [OF u,
      of "[1, 0, 0, 0, 0, 1, 0, 0, 0, 0, 1, 0, 2, 3, - 40, 1]"
         "[Vec3 0.5 0.5 0, Vec3 0.4 0.6 0]"
         "[\<lparr>facialTransformationMatrixes = Some [[0, 0, 1, 0, 0, 1, 0, 0, - 1, 0, 0, 0, 0, 0, 0, 1]],
            faceLandmarks = None\<rparr>,
           \<lparr>facialTransformationMatrixes = Some [],
            faceLandmarks = Some [[Vec3 0.5 0.5 0, Vec3 0.4 0.6 0]]\<rparr>]"]
  show ?thesis by simp
qed

section \<open>The 25 joints of a hand\<close>

lemma dj_nth: "i < 21 \<Longrightarrow> detectorJoints l w tr ! i = detectorJoint l (usedWorld w) (handAnchor (l ! 0) tr) i"
  by (simp add: detectorJoints_def)

lemma interp_mid: "position (interpolateJoint a b (1 / 2)) = midpoint3 (position a) (position b)"
  by (simp add: interpolateJoint_def midpoint3_def field_simps)

lemma processHand_returns:
  "length lms = 21 \<Longrightarrow> (case wls of None \<Rightarrow> True | Some wl \<Rightarrow> wl = [] \<or> length wl = 21) \<Longrightarrow>
   \<exists>d. processHandLandmarks lms wls h tr = Inr d"
  by (auto simp: processHandLandmarks_def usedWorld_def Let_def split: option.splits)

lemma processHand_joints:
  "processHandLandmarks lms wls h tr = Inr d \<Longrightarrow>
     joints d = expandJoints (detectorJoints lms wls tr)
     \<and> palmNormal d = Some (computePalmNormal (joints d) h)
     \<and> (case usedWorld wls of Some wl \<Rightarrow> 21 \<le> length wl | None \<Rightarrow> 21 \<le> length lms)"
  by (auto simp: processHandLandmarks_def Let_def split: if_splits option.splits)

lemma processHand_skeleton:
  assumes "processHandLandmarks lms wls h tr = Inr d"
  shows "length (joints d) = 25
     \<and> joints d ! 0 = detectorJoints lms wls tr ! 0
     \<and> position (joints d ! 0) = handAnchor (lms ! 0) tr
     \<and> position (joints d ! 5) =
         midpoint3 (position (detectorJoints lms wls tr ! 0)) (position (detectorJoints lms wls tr ! 5))
     \<and> position (joints d ! 10) =
         midpoint3 (position (detectorJoints lms wls tr ! 0)) (position (detectorJoints lms wls tr ! 9))
     \<and> position (joints d ! 15) =
         midpoint3 (position (detectorJoints lms wls tr ! 0)) (position (detectorJoints lms wls tr ! 13))
     \<and> position (joints d ! 20) =
         midpoint3 (position (detectorJoints lms wls tr ! 0)) (position (detectorJoints lms wls tr ! 17))
     \<and> joints d ! 6 = detectorJoints lms wls tr ! 5
     \<and> joints d ! 11 = detectorJoints lms wls tr ! 9
     \<and> joints d ! 16 = detectorJoints lms wls tr ! 13
     \<and> joints d ! 21 = detectorJoints lms wls tr ! 17"
proof -
  from assms have d: "joints d = expandJoints (detectorJoints lms wls tr)"
    by (simp add: processHand_joints)
  have a: "position (detectorJoints lms wls tr ! 0) = handAnchor (lms ! 0) tr"
    by (simp add: dj_nth detectorJoint_def Let_def split: option.splits)
  show ?thesis unfolding d
    by (simp add: expandJoints_def interp_mid a [symmetric])
qed

text \<open>
  C3. A hand observation with 21 normalized landmarks (and world landmarks that are absent,
  empty or 21 as well) is processed without an error, and the result has exactly 25 joints;
  joint 0 is the detector's wrist joint, placed at the anchor of the hand; joints 5, 10, 15
  and 20 lie at the midpoint of the wrist and the detector joints 5, 9, 13 and 17, the first
  detector joints of the index, middle, ring and pinky finger, which are joints 6, 11, 16 and
  21 of the result.
\<close>

theorem C3_hand_skeleton:
  assumes "length lms = 21"
    and "case wls of None \<Rightarrow> True | Some wl \<Rightarrow> wl = [] \<or> length wl = 21"
  shows "\<exists>d. processHandLandmarks lms wls h tr = Inr d
     \<and> length (joints d) = 25
     \<and> joints d ! 0 = detectorJoints lms wls tr ! 0
     \<and> position (joints d ! 0) = handAnchor (lms ! 0) tr
     \<and> position (joints d ! 5) = midpoint3 (position (joints d ! 0)) (position (joints d ! 6))
     \<and> position (joints d ! 10) = midpoint3 (position (joints d ! 0)) (position (joints d ! 11))
     \<and> position (joints d ! 15) = midpoint3 (position (joints d ! 0)) (position (joints d ! 16))
     \<and> position (joints d ! 20) = midpoint3 (position (joints d ! 0)) (position (joints d ! 21))
     \<and> joints d ! 6 = detectorJoints lms wls tr ! 5
     \<and> joints d ! 11 = detectorJoints lms wls tr ! 9
     \<and> joints d ! 16 = detectorJoints lms wls tr ! 13
     \<and> joints d ! 21 = detectorJoints lms wls tr ! 17"
proof -
  from processHand_returns [OF assms] obtain d where
    d: "processHandLandmarks lms wls h tr = Inr d" by blast
  from processHand_skeleton [OF d] d show ?thesis by (intro exI [of _ d]) auto
qed

theorem C3_hand_skeleton_witness:
  "length exampleLandmarks = 21
   \<and> (case Some exampleWorld of None \<Rightarrow> True | Some wl \<Rightarrow> wl = [] \<or> length wl = 21)
   \<and> (\<exists>d. processHandLandmarks exampleLandmarks (Some exampleWorld) RightHand initialTracking = Inr d
     \<and> length (joints d) = 25
     \<and> joints d ! 0 = detectorJoints exampleLandmarks (Some exampleWorld) initialTracking ! 0
     \<and> position (joints d ! 0) = handAnchor (exampleLandmarks ! 0) initialTracking
     \<and> position (joints d ! 5) = midpoint3 (position (joints d ! 0)) (position (joints d ! 6))
     \<and> position (joints d ! 10) = midpoint3 (position (joints d ! 0)) (position (joints d ! 11))
     \<and> position (joints d ! 15) = midpoint3 (position (joints d ! 0)) (position (joints d ! 16))
     \<and> position (joints d ! 20) = midpoint3 (position (joints d ! 0)) (position (joints d ! 21))
     \<and> joints d ! 6 = detectorJoints exampleLandmarks (Some exampleWorld) initialTracking ! 5
     \<and> joints d ! 11 = detectorJoints exampleLandmarks (Some exampleWorld) initialTracking ! 9
     \<and> joints d ! 16 = detectorJoints exampleLandmarks (Some exampleWorld) initialTracking ! 13
     \<and> joints d ! 21 = detectorJoints exampleLandmarks (Some exampleWorld) initialTracking ! 17)"
proof -
  have l: "length exampleLandmarks = 21" by (simp add: exampleLandmarks_def)
  have w: "case Some exampleWorld of None \<Rightarrow> True | Some wl \<Rightarrow> wl = [] \<or> length wl = 21"
    by (simp add: exampleWorld_def)
  from l w C3_hand_skeleton [OF l w, of RightHand initialTracking] show ?thesis by blast
qed

section \<open>The palm normal\<close>

lemma usedWorld_mirror:
  "usedWorld (mirrorWorld wls) = map_option (map (\<lambda>v. Vec3 (- vec_x v) (vec_y v) (vec_z v))) (usedWorld wls)"
  by (cases wls) (simp_all add: usedWorld_def mirrorWorld_def)

lemma nth_map_21: "21 \<le> length l \<Longrightarrow> i < 21 \<Longrightarrow> map f l ! i = f (l ! i)"
  by simp

lemma nth_map_21_0: "21 \<le> length l \<Longrightarrow> map f l ! 0 = f (l ! 0)"
  by (cases l) simp_all

lemma rel_mirror:
  assumes "case usedWorld wls of Some wl \<Rightarrow> 21 \<le> length wl | None \<Rightarrow> 21 \<le> length lms"
    and "i < 21"
  shows "vec_x (position (detectorJoints (mirrorLandmarks lms) (mirrorWorld wls) tr' ! i))
           - vec_x (position (detectorJoints (mirrorLandmarks lms) (mirrorWorld wls) tr' ! 0))
         = - (vec_x (position (detectorJoints lms wls tr ! i)) - vec_x (position (detectorJoints lms wls tr ! 0)))"
    and "vec_y (position (detectorJoints (mirrorLandmarks lms) (mirrorWorld wls) tr' ! i))
           - vec_y (position (detectorJoints (mirrorLandmarks lms) (mirrorWorld wls) tr' ! 0))
         = vec_y (position (detectorJoints lms wls tr ! i)) - vec_y (position (detectorJoints lms wls tr ! 0))"
    and "vec_z (position (detectorJoints (mirrorLandmarks lms) (mirrorWorld wls) tr' ! i))
           - vec_z (position (detectorJoints (mirrorLandmarks lms) (mirrorWorld wls) tr' ! 0))
         = vec_z (position (detectorJoints lms wls tr ! i)) - vec_z (position (detectorJoints lms wls tr ! 0))"
  using assms
  by (auto simp: dj_nth usedWorld_mirror detectorJoint_def Let_def mirrorLandmarks_def
        nth_map_21 nth_map_21_0 diff_divide_distrib split: option.splits)

lemma palmCross_expand:
  "palmCross (expandJoints js) =
     Vec3 ((vec_y (position (js ! 17)) - vec_y (position (js ! 0))) * (vec_z (position (js ! 5)) - vec_z (position (js ! 0)))
           - (vec_z (position (js ! 17)) - vec_z (position (js ! 0))) * (vec_y (position (js ! 5)) - vec_y (position (js ! 0))))
          ((vec_z (position (js ! 17)) - vec_z (position (js ! 0))) * (vec_x (position (js ! 5)) - vec_x (position (js ! 0)))
           - (vec_x (position (js ! 17)) - vec_x (position (js ! 0))) * (vec_z (position (js ! 5)) - vec_z (position (js ! 0))))
          ((vec_x (position (js ! 17)) - vec_x (position (js ! 0))) * (vec_y (position (js ! 5)) - vec_y (position (js ! 0)))
           - (vec_y (position (js ! 17)) - vec_y (position (js ! 0))) * (vec_x (position (js ! 5)) - vec_x (position (js ! 0))))"
  by (simp add: palmCross_def expandJoints_def Let_def)

lemma cross_mirror:
  fixes px py pz ix iy iz :: real
  assumes "px' = - px" "py' = py" "pz' = pz" "ix' = - ix" "iy' = iy" "iz' = iz"
  shows "Vec3 (py' * iz' - pz' * iy') (pz' * ix' - px' * iz') (px' * iy' - py' * ix')
       = Vec3 (vec_x (Vec3 (py * iz - pz * iy) (pz * ix - px * iz) (px * iy - py * ix)))
              (- vec_y (Vec3 (py * iz - pz * iy) (pz * ix - px * iz) (px * iy - py * ix)))
              (- vec_z (Vec3 (py * iz - pz * iy) (pz * ix - px * iz) (px * iy - py * ix)))"
  using assms by simp

lemma palmCross_mirror:
  assumes "case usedWorld wls of Some wl \<Rightarrow> 21 \<le> length wl | None \<Rightarrow> 21 \<le> length lms"
  shows "palmCross (expandJoints (detectorJoints (mirrorLandmarks lms) (mirrorWorld wls) tr')) =
         Vec3 (vec_x (palmCross (expandJoints (detectorJoints lms wls tr))))
              (- vec_y (palmCross (expandJoints (detectorJoints lms wls tr))))
              (- vec_z (palmCross (expandJoints (detectorJoints lms wls tr))))"
  unfolding palmCross_expand
  by (rule cross_mirror) (rule rel_mirror [OF assms], simp)+

lemma palmLen_mirror:
  assumes "case usedWorld wls of Some wl \<Rightarrow> 21 \<le> length wl | None \<Rightarrow> 21 \<le> length lms"
  shows "palmLen (expandJoints (detectorJoints (mirrorLandmarks lms) (mirrorWorld wls) tr')) =
         palmLen (expandJoints (detectorJoints lms wls tr))"
  by (simp add: palmLen_def Let_def palmCross_mirror [OF assms, of tr' tr])

lemma normalize3_unit:
  fixes a b c :: real
  assumes "0 < a * a + b * b + c * c"
  defines "n \<equiv> sqrt (a * a + b * b + c * c)"
  shows "(a / n) * (a / n) + (b / n) * (b / n) + (c / n) * (c / n) = 1"
proof -
  have n: "n * n = a * a + b * b + c * c" using assms by (simp add: n_def)
  have nz: "n \<noteq> 0" using assms by (simp add: n_def)
  have "(a / n) * (a / n) + (b / n) * (b / n) + (c / n) * (c / n)
        = (a * a + b * b + c * c) / (n * n)"
    by (simp add: add_divide_distrib)
  also have "\<dots> = (n * n) / (n * n)" by (simp only: n)
  also have "\<dots> = 1" using nz by simp
  finally show ?thesis .
qed

lemma computePalmNormal_unit:
  assumes "palmLen js > 0.0001"
  shows "unitVec (computePalmNormal js h)"
proof -
  define n where "n = palmCross js"
  define s where "s = vec_x n * vec_x n + vec_y n * vec_y n + vec_z n * vec_z n"
  have len: "palmLen js = sqrt s" by (simp add: palmLen_def Let_def n_def s_def)
  have "(0::real) < 0.0001" by simp
  from this assms have "0 < palmLen js" by (rule less_trans)
  then have "0 < sqrt s" by (simp only: len)
  then have spos: "0 < s" by (simp only: real_sqrt_gt_0_iff)
  from normalize3_unit [of "vec_x n" "vec_y n" "vec_z n"] spos
  have "unitVec (Vec3 (vec_x n / sqrt s) (vec_y n / sqrt s) (vec_z n / sqrt s))"
    by (simp add: unitVec_def s_def)
  then show ?thesis
    using assms by (cases h) (simp_all add: computePalmNormal_def Let_def len n_def [symmetric] unitVec_def)
qed

lemma computePalmNormal_left:
  "computePalmNormal js LeftHand = vec_neg (computePalmNormal js RightHand)"
  by (simp add: computePalmNormal_def Let_def vec_neg_def)

lemma computePalmNormal_mirror:
  assumes l: "case usedWorld wls of Some wl \<Rightarrow> 21 \<le> length wl | None \<Rightarrow> 21 \<le> length lms"
    and nd: "palmLen (expandJoints (detectorJoints lms wls tr)) > 0.0001"
  shows "computePalmNormal (expandJoints (detectorJoints (mirrorLandmarks lms) (mirrorWorld wls) tr')) LeftHand
       = mirrorVec (computePalmNormal (expandJoints (detectorJoints lms wls tr)) RightHand)"
  using nd
  by (simp add: computePalmNormal_def Let_def palmLen_mirror [OF l, of tr' tr]
        palmCross_mirror [OF l, of tr' tr] mirrorVec_def)

lemma sqrt_small: "sqrt (1 / 10000) = 1 / 100"
  by (rule real_sqrt_unique) (simp_all add: power2_eq_square)

lemma ex_cross_right:
  "palmCross (expandJoints (detectorJoints exampleLandmarks (Some exampleWorld) tr)) = Vec3 0 (1 / 100) 0"
  by (simp add: palmCross_expand dj_nth detectorJoint_def usedWorld_def exampleWorld_def Let_def)

lemma ex_cross_left:
  "palmCross (expandJoints (detectorJoints (mirrorLandmarks exampleLandmarks) (mirrorWorld (Some exampleWorld)) tr))
     = Vec3 0 (- (1 / 100)) 0"
  by (simp add: palmCross_expand dj_nth detectorJoint_def usedWorld_def exampleWorld_def Let_def
        mirrorWorld_def)

lemma ex_right:
  "resultNormal (processHandLandmarks exampleLandmarks (Some exampleWorld) RightHand tr) = Some (Vec3 0 1 0)"
  by (simp add: resultNormal_def processHandLandmarks_def Let_def computePalmNormal_def palmLen_def
        ex_cross_right sqrt_small power2_eq_square)
     (simp add: usedWorld_def exampleWorld_def exampleLandmarks_def)

lemma ex_left:
  "resultNormal (processHandLandmarks (mirrorLandmarks exampleLandmarks) (mirrorWorld (Some exampleWorld)) LeftHand tr)
     = Some (Vec3 0 1 0)"
  by (simp add: resultNormal_def processHandLandmarks_def Let_def computePalmNormal_def palmLen_def
        ex_cross_left sqrt_small power2_eq_square)
     (simp add: usedWorld_def exampleWorld_def exampleLandmarks_def mirrorWorld_def mirrorLandmarks_def)

lemma ex_palmLen:
  "palmLen (expandJoints (detectorJoints exampleLandmarks (Some exampleWorld) tr)) = 1 / 100"
  by (simp add: palmLen_def Let_def ex_cross_right sqrt_small)

lemma processHand_mirror_returns:
  assumes "processHandLandmarks lms wls h tr = Inr d"
  shows "\<exists>d'. processHandLandmarks (mirrorLandmarks lms) (mirrorWorld wls) h' tr' = Inr d'"
  using assms
  by (auto simp: processHandLandmarks_def usedWorld_mirror mirrorLandmarks_def Let_def
        split: if_splits option.splits)

text \<open>
  C7, as the code has it. Whenever the cross product of wrist-to-pinky and wrist-to-index has
  a length above 0.0001, the palm normal is a unit vector. For a right-hand observation of
  that kind and the left-hand observation whose landmarks are its mirror image, the palm
  normal of the left hand is the mirror image of the palm normal of the right hand (\<open>x\<close>
  negated, \<open>y\<close> and \<open>z\<close> kept), and it is the negation of the normal that the same mirrored
  landmarks give when they are processed as a right hand. On the test observation of a
  palm-down right hand and its mirror image both normals are (0, 1, 0), so there the left
  normal is neither the negation of the right one nor the negation of its mirror image.
\<close>

theorem C7_palm_normal:
  "(processHandLandmarks lms wls h tr = Inr d \<and> palmLen (joints d) > 0.0001
      \<longrightarrow> (\<exists>n. palmNormal d = Some n \<and> unitVec n))
   \<and> (processHandLandmarks lms wls RightHand tr = Inr dR \<and> palmLen (joints dR) > 0.0001
      \<longrightarrow> (\<exists>dL dM nR.
            processHandLandmarks (mirrorLandmarks lms) (mirrorWorld wls) LeftHand tr' = Inr dL
          \<and> processHandLandmarks (mirrorLandmarks lms) (mirrorWorld wls) RightHand tr' = Inr dM
          \<and> palmNormal dR = Some nR
          \<and> palmNormal dL = Some (mirrorVec nR)
          \<and> palmNormal dL = map_option vec_neg (palmNormal dM)))"
proof (intro conjI impI)
  assume a: "processHandLandmarks lms wls h tr = Inr d \<and> palmLen (joints d) > 0.0001"
  then have r: "processHandLandmarks lms wls h tr = Inr d" and nd: "palmLen (joints d) > 0.0001"
    by simp_all
  from processHand_joints [OF r] have "palmNormal d = Some (computePalmNormal (joints d) h)" by simp
  moreover from nd have "unitVec (computePalmNormal (joints d) h)" by (rule computePalmNormal_unit)
  ultimately show "\<exists>n. palmNormal d = Some n \<and> unitVec n" by simp
next
  assume a: "processHandLandmarks lms wls RightHand tr = Inr dR \<and> palmLen (joints dR) > 0.0001"
  then have R: "processHandLandmarks lms wls RightHand tr = Inr dR"
    and ndR: "palmLen (joints dR) > 0.0001" by simp_all
  note jR = processHand_joints [OF R]
  from jR have l: "case usedWorld wls of Some wl \<Rightarrow> 21 \<le> length wl | None \<Rightarrow> 21 \<le> length lms" by simp
  from ndR jR have nd: "palmLen (expandJoints (detectorJoints lms wls tr)) > 0.0001" by simp
  from processHand_mirror_returns [OF R] obtain dL where
    L: "processHandLandmarks (mirrorLandmarks lms) (mirrorWorld wls) LeftHand tr' = Inr dL" by blast
  from processHand_mirror_returns [OF R] obtain dM where
    M: "processHandLandmarks (mirrorLandmarks lms) (mirrorWorld wls) RightHand tr' = Inr dM" by blast
  note jL = processHand_joints [OF L] and jM = processHand_joints [OF M]
  have 1: "palmNormal dL = Some (mirrorVec (computePalmNormal (joints dR) RightHand))"
    using jL jR computePalmNormal_mirror [OF l nd, of tr'] by simp
  have 2: "palmNormal dL = map_option vec_neg (palmNormal dM)"
    using jL jM by (simp add: computePalmNormal_left)
  from L M jR 1 2 show "\<exists>dL dM nR.
            processHandLandmarks (mirrorLandmarks lms) (mirrorWorld wls) LeftHand tr' = Inr dL
          \<and> processHandLandmarks (mirrorLandmarks lms) (mirrorWorld wls) RightHand tr' = Inr dM
          \<and> palmNormal dR = Some nR
          \<and> palmNormal dL = Some (mirrorVec nR)
          \<and> palmNormal dL = map_option vec_neg (palmNormal dM)" by blast
qed

theorem C7_palm_normal_witness:
  "\<exists>d. processHandLandmarks exampleLandmarks (Some exampleWorld) RightHand initialTracking = Inr d
      \<and> palmLen (joints d) > 0.0001
      \<and> (\<exists>n. palmNormal d = Some n \<and> unitVec n)
      \<and> (\<exists>dL dM nR.
            processHandLandmarks (mirrorLandmarks exampleLandmarks) (mirrorWorld (Some exampleWorld))
              LeftHand initialTracking = Inr dL
          \<and> processHandLandmarks (mirrorLandmarks exampleLandmarks) (mirrorWorld (Some exampleWorld))
              RightHand initialTracking = Inr dM
          \<and> palmNormal d = Some nR
          \<and> palmNormal dL = Some (mirrorVec nR)
          \<and> palmNormal dL = map_option vec_neg (palmNormal dM))"
proof -
  have "\<exists>d. processHandLandmarks exampleLandmarks (Some exampleWorld) RightHand initialTracking = Inr d"
    by (rule processHand_returns) (simp_all add: exampleLandmarks_def exampleWorld_def)
  then obtain d where
    d: "processHandLandmarks exampleLandmarks (Some exampleWorld) RightHand initialTracking = Inr d"
    by blast
  have "palmLen (joints d) = 1 / 100" using processHand_joints [OF d] by (simp add: ex_palmLen)
  then have nd: "palmLen (joints d) > 0.0001" by simp
  from d nd
    C7_palm_normal [of exampleLandmarks "Some exampleWorld" RightHand initialTracking d d initialTracking]
  show ?thesis by blast
qed

theorem C7_mirror_counterexample:
  "resultNormal (processHandLandmarks exampleLandmarks (Some exampleWorld) RightHand initialTracking)
     = Some (Vec3 0 1 0)
   \<and> palmLen (expandJoints (detectorJoints exampleLandmarks (Some exampleWorld) initialTracking)) > 0.0001
   \<and> resultNormal (processHandLandmarks (mirrorLandmarks exampleLandmarks)
        (mirrorWorld (Some exampleWorld)) LeftHand initialTracking) = Some (Vec3 0 1 0)
   \<and> resultNormal (processHandLandmarks (mirrorLandmarks exampleLandmarks)
        (mirrorWorld (Some exampleWorld)) LeftHand initialTracking)
      \<noteq> map_option (\<lambda>n. vec_neg (mirrorVec n))
          (resultNormal (processHandLandmarks exampleLandmarks (Some exampleWorld) RightHand initialTracking))
   \<and> resultNormal (processHandLandmarks (mirrorLandmarks exampleLandmarks)
        (mirrorWorld (Some exampleWorld)) LeftHand initialTracking)
      \<noteq> map_option vec_neg
          (resultNormal (processHandLandmarks exampleLandmarks (Some exampleWorld) RightHand initialTracking))"
  by (simp add: ex_right ex_left ex_palmLen vec_neg_def mirrorVec_def)

section \<open>Poses of joint spaces\<close>

lemma XRJointSpace_radius: "js_radius (XRJointSpace n d i) = 0.01"
  by (simp add: XRJointSpace_def)

lemma XRJointSpace_handData: "js_handData (XRJointSpace n d i) = d"
  by (simp add: XRJointSpace_def)

lemma HAND_JOINTS_length: "length HAND_JOINTS = 25"
  by (simp add: HAND_JOINTS_def)

lemma hand_radius_new: "s \<in> set (jointSpaces (XRHand d)) \<Longrightarrow> js_radius s = 0.01"
  unfolding XRHand_def by (clarsimp simp: XRJointSpace_radius)

lemma hand_radius_update:
  "\<forall>s \<in> set (jointSpaces h). js_radius s = 0.01 \<Longrightarrow>
   \<forall>s \<in> set (jointSpaces (XRHand_update h d)). js_radius s = 0.01"
  by (simp add: XRHand_update_def)

lemma hand_radius:
  "s \<in> set (jointSpaces (foldl XRHand_update (XRHand d) ds)) \<Longrightarrow> js_radius s = 0.01"
proof -
  have "\<forall>s \<in> set (jointSpaces (foldl XRHand_update (XRHand d) ds)). js_radius s = 0.01"
  proof (induction ds rule: rev_induct)
    case Nil
    then show ?case by (simp add: hand_radius_new)
  next
    case (snoc x xs)
    show ?case unfolding foldl_append foldl_Cons foldl_Nil
      by (rule hand_radius_update [OF snoc.IH])
  qed
  then show "s \<in> set (jointSpaces (foldl XRHand_update (XRHand d) ds)) \<Longrightarrow> js_radius s = 0.01"
    by blast
qed

lemma update_length: "length (jointSpaces (XRHand_update h d)) = length (jointSpaces h)"
  by (simp add: XRHand_update_def)

lemma hand_length: "length (jointSpaces (foldl XRHand_update (XRHand d) ds)) = 25"
proof (induction ds rule: rev_induct)
  case Nil
  then show ?case by (simp add: XRHand_def HAND_JOINTS_length)
next
  case (snoc x xs)
  then show ?case unfolding foldl_append foldl_Cons foldl_Nil by (simp only: update_length)
qed

lemma no_joints_null:
  "joints (js_handData s) = [] \<Longrightarrow>
     getPose (JointSpaceArg s) = None \<and> getJointPose (JointSpaceArg s) = None"
  by (simp add: getPose_def getJointPose_def jointSpace_getPose_def jointSpace_getJointPose_def)

lemma joint_pose_radius:
  "getJointPose (JointSpaceArg s) = Some p \<Longrightarrow> jp_radius p = js_radius s"
  by (auto simp: getJointPose_def jointSpace_getJointPose_def XRJointPose_def split: option.splits)

lemma joint_present:
  "jointIndex s < length (joints (js_handData s)) \<Longrightarrow>
    \<exists>p. getJointPose (JointSpaceArg s) = Some p
       \<and> t_position (pose_transform p) = position (joints (js_handData s) ! jointIndex s)"
  by (simp add: getJointPose_def jointSpace_getJointPose_def jointSpace_getPose_def Let_def
        XRJointPose_def XRPose_def XRRigidTransform_def)

lemma hand_new_empty: "s \<in> set (jointSpaces (XRHand d)) \<Longrightarrow> joints (js_handData s) = []"
  unfolding XRHand_def by (clarsimp simp: XRJointSpace_handData emptyJoints_def)

lemma hand_update_absent:
  "s \<in> set (jointSpaces (XRHand_update h None)) \<Longrightarrow> joints (js_handData s) = []"
  unfolding XRHand_update_def by (clarsimp simp: emptyJoints_def)

text \<open>
  C10. A joint space whose hand data has no joints gives \<open>None\<close> (\<^verbatim>\<open>null\<close>) from both
  \<open>getPose\<close> and \<open>getJointPose\<close>; that is the state of every joint space of a hand right
  after its construction and after an update with absent data. On a joint space of a hand,
  however the hand was updated, every joint pose that is returned has the radius 0.01, and
  one is returned whenever the hand data has the joint.
\<close>

theorem C10_joint_pose:
  "(joints (js_handData s) = []
      \<longrightarrow> getPose (JointSpaceArg s) = None \<and> getJointPose (JointSpaceArg s) = None)
   \<and> (s1 \<in> set (jointSpaces (XRHand d1))
      \<longrightarrow> getPose (JointSpaceArg s1) = None \<and> getJointPose (JointSpaceArg s1) = None)
   \<and> (s2 \<in> set (jointSpaces (XRHand_update h None))
      \<longrightarrow> getPose (JointSpaceArg s2) = None \<and> getJointPose (JointSpaceArg s2) = None)
   \<and> (s3 \<in> set (jointSpaces (foldl XRHand_update (XRHand d) ds))
        \<and> getJointPose (JointSpaceArg s3) = Some p
      \<longrightarrow> jp_radius p = 0.01)
   \<and> (s3 \<in> set (jointSpaces (foldl XRHand_update (XRHand d) ds))
        \<and> jointIndex s3 < length (joints (js_handData s3))
      \<longrightarrow> (\<exists>p'. getJointPose (JointSpaceArg s3) = Some p' \<and> jp_radius p' = 0.01
               \<and> t_position (pose_transform p') = position (joints (js_handData s3) ! jointIndex s3)))"
proof -
  have c0: "joints (js_handData s) = []
      \<longrightarrow> getPose (JointSpaceArg s) = None \<and> getJointPose (JointSpaceArg s) = None"
    by (simp add: no_joints_null)
  have c1: "s1 \<in> set (jointSpaces (XRHand d1))
      \<longrightarrow> getPose (JointSpaceArg s1) = None \<and> getJointPose (JointSpaceArg s1) = None"
    using hand_new_empty [of s1 d1] no_joints_null [of s1] by blast
  have c2: "s2 \<in> set (jointSpaces (XRHand_update h None))
      \<longrightarrow> getPose (JointSpaceArg s2) = None \<and> getJointPose (JointSpaceArg s2) = None"
    using hand_update_absent [of s2 h] no_joints_null [of s2] by blast
  have c3: "s3 \<in> set (jointSpaces (foldl XRHand_update (XRHand d) ds))
        \<and> getJointPose (JointSpaceArg s3) = Some p
      \<longrightarrow> jp_radius p = 0.01"
    using joint_pose_radius [of s3 p] hand_radius [of s3 d ds] by auto
  have c4: "s3 \<in> set (jointSpaces (foldl XRHand_update (XRHand d) ds))
        \<and> jointIndex s3 < length (joints (js_handData s3))
      \<longrightarrow> (\<exists>p'. getJointPose (JointSpaceArg s3) = Some p' \<and> jp_radius p' = 0.01
               \<and> t_position (pose_transform p') = position (joints (js_handData s3) ! jointIndex s3))"
  proof
    assume a: "s3 \<in> set (jointSpaces (foldl XRHand_update (XRHand d) ds))
        \<and> jointIndex s3 < length (joints (js_handData s3))"
    then obtain p' where p: "getJointPose (JointSpaceArg s3) = Some p'"
      and t: "t_position (pose_transform p') = position (joints (js_handData s3) ! jointIndex s3)"
      using joint_present [of s3] by blast
    from p have "jp_radius p' = js_radius s3" by (rule joint_pose_radius)
    moreover from a have "js_radius s3 = 0.01" by (blast intro: hand_radius)
    ultimately have "jp_radius p' = 0.01" by simp
    with p t show "\<exists>p'. getJointPose (JointSpaceArg s3) = Some p' \<and> jp_radius p' = 0.01
               \<and> t_position (pose_transform p') = position (joints (js_handData s3) ! jointIndex s3)"
      by blast
  qed
  from c0 c1 c2 c3 c4 show ?thesis by (intro conjI)
qed

lemma hand_nth_updated:
  "i < 25 \<Longrightarrow> jointSpaces (XRHand_update (XRHand d) (Some v)) ! i
     = (XRJointSpace (HAND_JOINTS ! i) emptyJoints i)\<lparr>js_handData := v\<rparr>"
  by (simp add: XRHand_update_def XRHand_def HAND_JOINTS_length)

theorem C10_joint_pose_witness:
  "joints (js_handData (XRJointSpace ''wrist'' emptyJoints 0)) = []
   \<and> getPose (JointSpaceArg (XRJointSpace ''wrist'' emptyJoints 0)) = None
   \<and> getJointPose (JointSpaceArg (XRJointSpace ''wrist'' emptyJoints 0)) = None
   \<and> jointSpaces (XRHand (Some exampleHand)) ! 9 \<in> set (jointSpaces (XRHand (Some exampleHand)))
   \<and> getPose (JointSpaceArg (jointSpaces (XRHand (Some exampleHand)) ! 9)) = None
   \<and> getJointPose (JointSpaceArg (jointSpaces (XRHand (Some exampleHand)) ! 9)) = None
   \<and> jointSpaces (XRHand_update (XRHand_update (XRHand None) (Some exampleHand)) None) ! 9
        \<in> set (jointSpaces (XRHand_update (XRHand_update (XRHand None) (Some exampleHand)) None))
   \<and> getPose (JointSpaceArg
        (jointSpaces (XRHand_update (XRHand_update (XRHand None) (Some exampleHand)) None) ! 9)) = None
   \<and> getJointPose (JointSpaceArg
        (jointSpaces (XRHand_update (XRHand_update (XRHand None) (Some exampleHand)) None) ! 9)) = None
   \<and> jointSpaces (foldl XRHand_update (XRHand None) [Some exampleHand]) ! 9
        \<in> set (jointSpaces (foldl XRHand_update (XRHand None) [Some exampleHand]))
   \<and> jointIndex (jointSpaces (foldl XRHand_update (XRHand None) [Some exampleHand]) ! 9)
        < length (joints (js_handData (jointSpaces (foldl XRHand_update (XRHand None) [Some exampleHand]) ! 9)))
   \<and> getJointPose (JointSpaceArg (jointSpaces (foldl XRHand_update (XRHand None) [Some exampleHand]) ! 9))
        = Some (the (getJointPose (JointSpaceArg
             (jointSpaces (foldl XRHand_update (XRHand None) [Some exampleHand]) ! 9))))
   \<and> jp_radius (the (getJointPose (JointSpaceArg
        (jointSpaces (foldl XRHand_update (XRHand None) [Some exampleHand]) ! 9)))) = 0.01"
proof -
  let ?s0 = "XRJointSpace ''wrist'' emptyJoints 0"
  let ?s1 = "jointSpaces (XRHand (Some exampleHand)) ! 9"
  let ?h2 = "XRHand_update (XRHand None) (Some exampleHand)"
  let ?s2 = "jointSpaces (XRHand_update ?h2 None) ! 9"
  let ?s3 = "jointSpaces (foldl XRHand_update (XRHand None) [Some exampleHand]) ! 9"
  have e0: "joints (js_handData ?s0) = []" by (simp add: XRJointSpace_def emptyJoints_def)
  have m1: "?s1 \<in> set (jointSpaces (XRHand (Some exampleHand)))"
    by (rule nth_mem) (simp add: XRHand_def HAND_JOINTS_length)
  have m2: "?s2 \<in> set (jointSpaces (XRHand_update ?h2 None))"
    by (rule nth_mem) (simp add: XRHand_update_def XRHand_def HAND_JOINTS_length)
  have m3: "?s3 \<in> set (jointSpaces (foldl XRHand_update (XRHand None) [Some exampleHand]))"
    by (rule nth_mem, subst hand_length) simp
  have s3: "?s3 = (XRJointSpace (HAND_JOINTS ! 9) emptyJoints 9)\<lparr>js_handData := exampleHand\<rparr>"
    unfolding foldl_Cons foldl_Nil by (rule hand_nth_updated) simp
  have i3: "jointIndex ?s3 < length (joints (js_handData ?s3))"
    unfolding s3 by (simp add: XRJointSpace_def exampleHand_def expandJoints_def)
  from joint_present [OF i3] obtain q where q: "getJointPose (JointSpaceArg ?s3) = Some q" by blast
  then have g3: "getJointPose (JointSpaceArg ?s3) = Some (the (getJointPose (JointSpaceArg ?s3)))"
    by simp
  from e0 m1 m2 m3 i3 g3
    C10_joint_pose [of ?s0 ?s1 "Some exampleHand" ?s2 ?h2 ?s3 None "[Some exampleHand]"
      "the (getJointPose (JointSpaceArg ?s3))"]
  show ?thesis by blast
qed

section \<open>The pinch gesture\<close>

lemma detectGestures_edge:
  assumes "pinchThreshold h = Some 0.05" and "10 \<le> length (joints d)"
  shows "detectGestures h d
           = (h\<lparr>isPinching := isPinch d\<rparr>, edge (src_handedness h) (isPinching h) (isPinch d))"
  using assms by (auto simp: detectGestures_def Let_def isPinch_def edge_def)

lemma updateGamepad_fields:
  "isPinching (updateGamepad h d) = isPinching h"
  "pinchThreshold (updateGamepad h d) = pinchThreshold h"
  "src_handedness (updateGamepad h d) = src_handedness h"
  "src_handTrackingEnabled (updateGamepad h d) = src_handTrackingEnabled h"
  "src_session (updateGamepad h d) = src_session h"
  by (simp_all add: updateGamepad_def Let_def)

lemma gestureSource_updateGamepad: "gestureSource side s (updateGamepad h d) = gestureSource side s h"
  by (simp add: gestureSource_def updateGamepad_fields)

lemma updateHand_gesture:
  assumes g: "gestureSource side s h" and d: "gestureData d"
  shows "\<exists>h'. updateHand h (Some d) = (h', edge side (isPinching h) (isPinch d))
            \<and> gestureSource side s h' \<and> isPinching h' = isPinch d"
proof -
  let ?t = "XRRigidTransform (Some (position (joints d ! 0))) (Some (Quat 0 0 0 1))"
  let ?h2 = "h\<lparr>gripSpace := (gripSpace h)\<lparr>space_transform := ?t\<rparr>,
                targetRaySpace := (targetRaySpace h)\<lparr>space_transform := ?t\<rparr>\<rparr>"
  let ?h3 = "updateGamepad ?h2 d"
  from d have j: "joints d \<noteq> []" and l: "10 \<le> length (joints d)"
    by (auto simp: gestureData_def)
  from g have g2: "gestureSource side s ?h2" by (simp add: gestureSource_def)
  then have g3: "gestureSource side s ?h3" by (simp only: gestureSource_updateGamepad)
  have p3: "isPinching ?h3 = isPinching h" by (simp add: updateGamepad_fields)
  from g3 have th: "pinchThreshold ?h3 = Some 0.05" and sd: "src_handedness ?h3 = side"
    by (simp_all add: gestureSource_def)
  from g have u: "updateHand h (Some d) = detectGestures ?h3 d"
    using j by (cases "hand h") (simp_all add: updateHand_def Let_def gestureSource_def updateGamepad_fields)
  have "detectGestures ?h3 d = (?h3\<lparr>isPinching := isPinch d\<rparr>, edge side (isPinching h) (isPinch d))"
    using detectGestures_edge [OF th l] by (simp only: sd p3)
  moreover from g3 have "gestureSource side s (?h3\<lparr>isPinching := isPinch d\<rparr>)"
    by (simp add: gestureSource_def)
  ultimately show ?thesis using u by simp
qed

lemma detectGestures_any:
  assumes "gestureSource side s h"
  shows "\<exists>h' evs. detectGestures h d = (h', evs) \<and> gestureSource side s h'
            \<and> set evs \<subseteq> {SelectStart side, SelectEnd side}"
  using assms by (auto simp: detectGestures_def Let_def gestureSource_def)

lemma updateHand_any:
  assumes g: "gestureSource side s h"
  shows "\<exists>h' evs. updateHand h hdata = (h', evs) \<and> gestureSource side s h'
            \<and> set evs \<subseteq> {SelectStart side, SelectEnd side}"
proof (cases hdata)
  case None
  with g show ?thesis by (cases "hand h") (simp_all add: updateHand_def gestureSource_def)
next
  case (Some d)
  show ?thesis
  proof (cases "joints d = []")
    case True
    with g Some show ?thesis by (cases "hand h") (simp_all add: updateHand_def gestureSource_def)
  next
    case False
    let ?t = "XRRigidTransform (Some (position (joints d ! 0))) (Some (Quat 0 0 0 1))"
    let ?h2 = "h\<lparr>gripSpace := (gripSpace h)\<lparr>space_transform := ?t\<rparr>,
                  targetRaySpace := (targetRaySpace h)\<lparr>space_transform := ?t\<rparr>\<rparr>"
    let ?h3 = "updateGamepad ?h2 d"
    from g have g2: "gestureSource side s ?h2" by (simp add: gestureSource_def)
    then have g3: "gestureSource side s ?h3" by (simp only: gestureSource_updateGamepad)
    from g have u: "updateHand h hdata = detectGestures ?h3 d"
      using False Some
      by (cases "hand h") (simp_all add: updateHand_def Let_def gestureSource_def updateGamepad_fields)
    from detectGestures_any [OF g3, of d] u show ?thesis by simp
  qed
qed


lemma XRInputSource_gesture:
  assumes d: "gestureData d"
  shows "\<exists>h'. XRInputSource side (Some d) False (Some s) = (h', edge side False (isPinch d))
            \<and> gestureSource side s h' \<and> isPinching h' = isPinch d"
proof -
  have g: "gestureSource side s (newInputSource side (Some d) False (Some s))"
    by (simp add: gestureSource_def newInputSource_def)
  have "isPinching (newInputSource side (Some d) False (Some s)) = False"
    by (simp add: newInputSource_def)
  with updateHand_gesture [OF g d] show ?thesis by (simp add: XRInputSource_def)
qed

lemma XRInputSource_any:
  "\<exists>h' evs. XRInputSource side hdata False (Some s) = (h', evs) \<and> gestureSource side s h'
            \<and> set evs \<subseteq> {SelectStart side, SelectEnd side}"
  unfolding XRInputSource_def
  by (rule updateHand_any) (simp add: gestureSource_def newInputSource_def)

lemma updateSide_gesture:
  assumes inv: "sideInv side s source active" and d: "gestureData d"
  shows "\<exists>source'. updateSide side False (Some s) (Some d) source active
              = Inr (source', True, \<not> active, False, edge side (sidePinch source) (isPinch d))
            \<and> sideInv side s source' True \<and> sidePinch source' = isPinch d"
proof (cases source)
  case None
  with inv have na: "\<not> active" by (simp add: sideInv_def)
  from XRInputSource_gesture [OF d, of side s] obtain h' where
    "XRInputSource side (Some d) False (Some s) = (h', edge side False (isPinch d))"
    "gestureSource side s h'" "isPinching h' = isPinch d" by blast
  with None na d show ?thesis
    by (simp add: updateSide_def gestureData_def sideInv_def sidePinch_def)
next
  case (Some h)
  with inv have g: "gestureSource side s h" by (simp add: sideInv_def)
  from updateHand_gesture [OF g d] obtain h' where
    "updateHand h (Some d) = (h', edge side (isPinching h) (isPinch d))"
    "gestureSource side s h'" "isPinching h' = isPinch d" by blast
  with Some d show ?thesis
    by (simp add: updateSide_def gestureData_def sideInv_def sidePinch_def)
qed

lemma updateSide_any:
  assumes inv: "sideInv side s source active"
  shows "\<exists>source' active' a r evs. updateSide side False (Some s) hdata source active
              = Inr (source', active', a, r, evs)
            \<and> sideInv side s source' active'
            \<and> set evs \<subseteq> {SelectStart side, SelectEnd side}"
proof (cases source)
  case None
  with inv have na: "\<not> active" by (simp add: sideInv_def)
  from XRInputSource_any [of side hdata s] obtain h' evs where
    "XRInputSource side hdata False (Some s) = (h', evs)"
    "gestureSource side s h'" "set evs \<subseteq> {SelectStart side, SelectEnd side}" by blast
  with None na show ?thesis
    by (auto simp: updateSide_def sideInv_def Let_def split: option.splits)
next
  case (Some h)
  with inv have g: "gestureSource side s h" by (simp add: sideInv_def)
  from updateHand_any [OF g, of hdata] obtain h' evs where
    "updateHand h hdata = (h', evs)"
    "gestureSource side s h'" "set evs \<subseteq> {SelectStart side, SelectEnd side}" by blast
  with Some g show ?thesis
    by (auto simp: updateSide_def sideInv_def gestureSource_def Let_def split: option.splits)
qed

lemma selectEvents_own:
  "set evs \<subseteq> {SelectStart side, SelectEnd side} \<Longrightarrow> selectEvents side evs = evs"
  by (induction evs) (auto simp: selectEvents_def)

lemma selectEvents_other:
  "set evs \<subseteq> {SelectStart other, SelectEnd other} \<Longrightarrow> other \<noteq> side \<Longrightarrow> selectEvents side evs = []"
  by (induction evs) (auto simp: selectEvents_def)

lemma selectEvents_append: "selectEvents side (xs @ ys) = selectEvents side xs @ selectEvents side ys"
  by (simp add: selectEvents_def)

lemma selectEvents_change:
  "selectEvents side (if c then [InputSourcesChange a r] else []) = []"
  by (simp add: selectEvents_def)

lemma edge_own: "set (edge side p q) \<subseteq> {SelectStart side, SelectEnd side}"
  by (auto simp: edge_def)

lemma array_update_gesture:
  assumes inv: "arrInv s arr" and sd: "sideData side (l, r) = Some d" and d: "gestureData d"
  shows "\<exists>arr' evs. XRInputSourceArray_update arr l r = Inr (arr', evs) \<and> arrInv s arr'
           \<and> selectEvents side evs = edge side (sidePinch (arrSide side arr)) (isPinch d)
           \<and> sidePinch (arrSide side arr') = isPinch d"
proof (cases side)
  case LeftHand
  with sd have l: "l = Some d" by (simp add: sideData_def)
  from inv have h: "\<not> arr_handTrackingEnabled arr" "arr_session arr = Some s"
    and il: "sideInv LeftHand s (leftHand arr) (leftHandActive arr)"
    and ir: "sideInv RightHand s (rightHand arr) (rightHandActive arr)"
    by (simp_all add: arrInv_def)
  from updateSide_gesture [OF il d] obtain lh where
    L: "updateSide LeftHand False (Some s) (Some d) (leftHand arr) (leftHandActive arr)
          = Inr (lh, True, \<not> leftHandActive arr, False, edge LeftHand (sidePinch (leftHand arr)) (isPinch d))"
    and il': "sideInv LeftHand s lh True" and pl: "sidePinch lh = isPinch d" by blast
  from updateSide_any [OF ir, of r] obtain rh ra a rm evR where
    R: "updateSide RightHand False (Some s) r (rightHand arr) (rightHandActive arr)
          = Inr (rh, ra, a, rm, evR)"
    and ir': "sideInv RightHand s rh ra" and er: "set evR \<subseteq> {SelectStart RightHand, SelectEnd RightHand}"
    by blast
  from er have sr: "selectEvents LeftHand evR = []" by (rule selectEvents_other) simp
  have sl: "selectEvents LeftHand (edge LeftHand (sidePinch (leftHand arr)) (isPinch d))
              = edge LeftHand (sidePinch (leftHand arr)) (isPinch d)"
    by (rule selectEvents_own) (rule edge_own)
  show ?thesis
    using h l L R il' ir' pl LeftHand
    by (simp add: XRInputSourceArray_update_def Let_def arrInv_def arrSide_def
          selectEvents_append selectEvents_change sr sl)
next
  case RightHand
  with sd have r: "r = Some d" by (simp add: sideData_def)
  from inv have h: "\<not> arr_handTrackingEnabled arr" "arr_session arr = Some s"
    and il: "sideInv LeftHand s (leftHand arr) (leftHandActive arr)"
    and ir: "sideInv RightHand s (rightHand arr) (rightHandActive arr)"
    by (simp_all add: arrInv_def)
  from updateSide_gesture [OF ir d] obtain rh where
    R: "updateSide RightHand False (Some s) (Some d) (rightHand arr) (rightHandActive arr)
          = Inr (rh, True, \<not> rightHandActive arr, False, edge RightHand (sidePinch (rightHand arr)) (isPinch d))"
    and ir': "sideInv RightHand s rh True" and pr: "sidePinch rh = isPinch d" by blast
  from updateSide_any [OF il, of l] obtain lh la a rm evL where
    L: "updateSide LeftHand False (Some s) l (leftHand arr) (leftHandActive arr)
          = Inr (lh, la, a, rm, evL)"
    and il': "sideInv LeftHand s lh la" and el: "set evL \<subseteq> {SelectStart LeftHand, SelectEnd LeftHand}"
    by blast
  from el have sl: "selectEvents RightHand evL = []" by (rule selectEvents_other) simp
  have sr: "selectEvents RightHand (edge RightHand (sidePinch (rightHand arr)) (isPinch d))
              = edge RightHand (sidePinch (rightHand arr)) (isPinch d)"
    by (rule selectEvents_own) (rule edge_own)
  show ?thesis
    using h r L R il' ir' pr RightHand
    by (simp add: XRInputSourceArray_update_def Let_def arrInv_def arrSide_def
          selectEvents_append selectEvents_change sr sl)
qed

lemma runTicks_gesture:
  "arrInv s arr \<Longrightarrow> map (sideData side) ticks = map Some ds \<Longrightarrow> list_all gestureData ds \<Longrightarrow>
     \<exists>arr' evss. runTicks ticks arr = Inr (arr', evss) \<and> arrInv s arr'
        \<and> map (selectEvents side) evss = edges side (sidePinch (arrSide side arr)) (map isPinch ds)"
proof (induction ticks arbitrary: arr ds)
  case Nil
  then show ?case by simp
next
  case (Cons t ticks)
  obtain l r where t: "t = (l, r)" by (cases t)
  from Cons.prems(2) obtain d ds' where ds: "ds = d # ds'" and sd: "sideData side (l, r) = Some d"
    and rest: "map (sideData side) ticks = map Some ds'" by (cases ds) (auto simp: t)
  from Cons.prems(3) ds have gd: "gestureData d" and gr: "list_all gestureData ds'" by simp_all
  from array_update_gesture [OF Cons.prems(1) sd gd] obtain arr1 evs where
    u: "XRInputSourceArray_update arr l r = Inr (arr1, evs)" and i1: "arrInv s arr1"
    and e: "selectEvents side evs = edge side (sidePinch (arrSide side arr)) (isPinch d)"
    and p: "sidePinch (arrSide side arr1) = isPinch d" by blast
  from Cons.IH [OF i1 rest gr] obtain arr2 evss where
    "runTicks ticks arr1 = Inr (arr2, evss)" "arrInv s arr2"
    "map (selectEvents side) evss = edges side (sidePinch (arrSide side arr1)) (map isPinch ds')"
    by blast
  with u e p show ?case by (simp add: t ds)
qed

lemma edges_false: "edges side False (replicate n False @ qs) = replicate n [] @ edges side False qs"
  by (induction n) (simp_all add: edge_def)

lemma edges_true: "edges side True (replicate n True @ qs) = replicate n [] @ edges side True qs"
  by (induction n) (simp_all add: edge_def)

lemma edges_pattern:
  "edges side False (replicate a False @ replicate (Suc b) True @ replicate (Suc c) False)
     = replicate a [] @ [[SelectStart side]] @ replicate b [] @ [[SelectEnd side]] @ replicate c []"
proof -
  have "edges side False (replicate (Suc c) False) = replicate (Suc c) []"
    using edges_false [of side "Suc c" "[]"] by simp
  then have 1: "edges side False (replicate c False) = replicate c []"
    using edges_false [of side c "[]"] by simp
  have 2: "edges side True (replicate (Suc c) False) = [SelectEnd side] # replicate c []"
    using 1 by (simp add: edge_def)
  have 3: "edges side True (replicate b True @ replicate (Suc c) False)
             = replicate b [] @ [SelectEnd side] # replicate c []"
    by (simp only: edges_true 2)
  have 4: "edges side False (replicate (Suc b) True @ replicate (Suc c) False)
             = [SelectStart side] # replicate b [] @ [SelectEnd side] # replicate c []"
    using 3 by (simp add: edge_def)
  show ?thesis by (simp only: edges_false 4) simp
qed


lemma map_isPinch_False:
  "list_all (\<lambda>d. gestureData d \<and> 0.05 \<le> pinchDist d) xs \<Longrightarrow>
     map isPinch xs = replicate (length xs) False \<and> list_all gestureData xs"
  by (induction xs) (simp_all add: isPinch_def)

lemma map_isPinch_True:
  "list_all (\<lambda>d. gestureData d \<and> pinchDist d < 0.05) xs \<Longrightarrow>
     map isPinch xs = replicate (length xs) True \<and> list_all gestureData xs"
  by (induction xs) (simp_all add: isPinch_def)

lemma concat_replicate_Nil: "concat (replicate n []) = []"
  by (induction n) simp_all

text \<open>
  C5. In a session without hand tracking, take any run of ticks in which the hand of one side
  is seen on every tick, with the thumb tip and the index finger tip first at least 0.05
  apart (on any number of ticks), then closer than 0.05 (on one tick or more), then at least
  0.05 apart again (on one tick or more), whatever the other hand does, starting from an
  input source array on which that side is not pinching (the new array of the session among
  them). The run does not throw, and the select events of that side are exactly one
  \<open>selectstart\<close>, on the first tick below the threshold, and one \<open>selectend\<close>, on the first
  tick back above it; every other tick has none.
\<close>

theorem C5_pinch_events:
  assumes "arrInv s arr" and "\<not> sidePinch (arrSide side arr)"
    and "map (sideData side) ticks = map Some (as @ bs @ cs)"
    and "list_all (\<lambda>d. gestureData d \<and> 0.05 \<le> pinchDist d) as"
    and "list_all (\<lambda>d. gestureData d \<and> pinchDist d < 0.05) bs"
    and "list_all (\<lambda>d. gestureData d \<and> 0.05 \<le> pinchDist d) cs"
    and "bs \<noteq> []" and "cs \<noteq> []"
  shows "\<exists>arr' evss. runTicks ticks arr = Inr (arr', evss)
     \<and> map (selectEvents side) evss =
         replicate (length as) [] @ [[SelectStart side]] @ replicate (length bs - 1) []
         @ [[SelectEnd side]] @ replicate (length cs - 1) []
     \<and> concat (map (selectEvents side) evss) = [SelectStart side, SelectEnd side]"
proof -
  from assms(7) obtain b where b: "length bs = Suc b" by (cases bs) auto
  from assms(8) obtain c where c: "length cs = Suc c" by (cases cs) auto
  note A = map_isPinch_False [OF assms(4)] and B = map_isPinch_True [OF assms(5)]
    and C = map_isPinch_False [OF assms(6)]
  from A B C have g: "list_all gestureData (as @ bs @ cs)" by simp
  from A B C have m: "map isPinch (as @ bs @ cs)
      = replicate (length as) False @ replicate (Suc b) True @ replicate (Suc c) False"
    by (simp add: b c)
  from runTicks_gesture [OF assms(1) assms(3) g] obtain arr' evss where
    r: "runTicks ticks arr = Inr (arr', evss)"
    and e: "map (selectEvents side) evss
             = edges side (sidePinch (arrSide side arr)) (map isPinch (as @ bs @ cs))" by blast
  from e assms(2) have e': "map (selectEvents side) evss =
         replicate (length as) [] @ [[SelectStart side]] @ replicate b []
         @ [[SelectEnd side]] @ replicate c []"
    by (simp only: m edges_pattern)
  then have "concat (map (selectEvents side) evss) = [SelectStart side, SelectEnd side]"
    by (simp add: concat_replicate_Nil)
  with r e' show ?thesis by (simp add: b c)
qed

lemma pinchExample_dist: "pinchDist (pinchExample g) = \<bar>g\<bar>"
  by (simp add: pinchDist_def pinchExample_def Let_def)

lemma pinchExample_data: "gestureData (pinchExample g)"
  by (simp add: gestureData_def pinchExample_def)

lemma new_array_inv: "arrInv s (XRInputSourceArray\<lparr>arr_session := Some s\<rparr>)"
  by (simp add: arrInv_def XRInputSourceArray_def sideInv_def)

theorem C5_pinch_events_witness:
  "arrInv 0 (XRInputSourceArray\<lparr>arr_session := Some 0\<rparr>)
   \<and> \<not> sidePinch (arrSide LeftHand (XRInputSourceArray\<lparr>arr_session := Some 0\<rparr>))
   \<and> map (sideData LeftHand)
        [(Some (pinchExample 0.1), None), (Some (pinchExample 0.01), Some (pinchExample 0)),
         (Some (pinchExample 0.01), None), (Some (pinchExample 0.1), None)]
      = map Some ([pinchExample 0.1] @ [pinchExample 0.01, pinchExample 0.01] @ [pinchExample 0.1])
   \<and> list_all (\<lambda>d. gestureData d \<and> 0.05 \<le> pinchDist d) [pinchExample 0.1]
   \<and> list_all (\<lambda>d. gestureData d \<and> pinchDist d < 0.05) [pinchExample 0.01, pinchExample 0.01]
   \<and> [pinchExample 0.01, pinchExample 0.01] \<noteq> [] \<and> [pinchExample 0.1] \<noteq> []
   \<and> (\<exists>arr' evss.
         runTicks
           [(Some (pinchExample 0.1), None), (Some (pinchExample 0.01), Some (pinchExample 0)),
            (Some (pinchExample 0.01), None), (Some (pinchExample 0.1), None)]
           (XRInputSourceArray\<lparr>arr_session := Some 0\<rparr>) = Inr (arr', evss)
       \<and> map (selectEvents LeftHand) evss = [[], [SelectStart LeftHand], [], [SelectEnd LeftHand]]
       \<and> concat (map (selectEvents LeftHand) evss) = [SelectStart LeftHand, SelectEnd LeftHand])"
proof -
  let ?arr = "XRInputSourceArray\<lparr>arr_session := Some 0\<rparr>"
  let ?ticks = "[(Some (pinchExample 0.1), None), (Some (pinchExample 0.01), Some (pinchExample 0)),
         (Some (pinchExample 0.01), None), (Some (pinchExample 0.1), None)]"
  have 1: "arrInv 0 ?arr" by (rule new_array_inv)
  have 2: "\<not> sidePinch (arrSide LeftHand ?arr)"
    by (simp add: sidePinch_def arrSide_def XRInputSourceArray_def)
  have 3: "map (sideData LeftHand) ?ticks
      = map Some ([pinchExample 0.1] @ [pinchExample 0.01, pinchExample 0.01] @ [pinchExample 0.1])"
    by (simp add: sideData_def)
  have 4: "list_all (\<lambda>d. gestureData d \<and> 0.05 \<le> pinchDist d) [pinchExample 0.1]"
    by (simp add: pinchExample_dist pinchExample_data)
  have 5: "list_all (\<lambda>d. gestureData d \<and> pinchDist d < 0.05) [pinchExample 0.01, pinchExample 0.01]"
    by (simp add: pinchExample_dist pinchExample_data)
  have 6: "[pinchExample 0.01, pinchExample 0.01] \<noteq> []" "[pinchExample 0.1] \<noteq> []" by simp_all
  from C5_pinch_events [OF 1 2 3 4 5 4 6]
  have "\<exists>arr' evss. runTicks ?ticks ?arr = Inr (arr', evss)
       \<and> map (selectEvents LeftHand) evss = [[], [SelectStart LeftHand], [], [SelectEnd LeftHand]]
       \<and> concat (map (selectEvents LeftHand) evss) = [SelectStart LeftHand, SelectEnd LeftHand]"
    by simp
  with 1 2 3 4 5 6 show ?thesis by (intro conjI)
qed

section \<open>The session singleton and the end of a session\<close>

lemma requestSession_active:
  "currentSession sys = Some sid \<Longrightarrow> requestSession m opts sys = (Inl InvalidStateError, sys)"
  by (simp add: requestSession_def)

lemma XRSession_result:
  "XRSession m opts sys = (sid, sys') \<Longrightarrow>
     sid = length (sessions sys) \<and> length (sessions sys') = Suc (length (sessions sys))
     \<and> mode (sessions sys' ! sid) = m \<and> \<not> ended (sessions sys' ! sid)
     \<and> animationFrameId (sessions sys' ! sid) = Some (Suc (frameHandles sys))
     \<and> pendingFrames sys' = pendingFrames sys @ [(Suc (frameHandles sys), sid)]
     \<and> take (length (sessions sys)) (sessions sys') = sessions sys
     \<and> currentSession sys' = currentSession sys \<and> dispatched sys' = dispatched sys
     \<and> videoElement sys' = videoElement sys"
  by (auto simp: XRSession_def window_requestAnimationFrame_def Let_def)

lemma requestSession_idle:
  assumes "currentSession sys = None"
  shows "\<exists>sys'. requestSession m opts sys = (Inr (length (sessions sys)), sys')
           \<and> currentSession sys' = Some (length (sessions sys)) \<and> isTracking sys'
           \<and> length (sessions sys') = Suc (length (sessions sys))
           \<and> mode (sessions sys' ! length (sessions sys)) = m
           \<and> \<not> ended (sessions sys' ! length (sessions sys))
           \<and> take (length (sessions sys)) (sessions sys') = sessions sys"
proof -
  obtain sid sys1 where x: "XRSession m opts sys = (sid, sys1)" by (cases "XRSession m opts sys")
  from XRSession_result [OF x] x assms show ?thesis
    by (auto simp: requestSession_def)
qed

lemma stopCamera_video: "videoElement (stopCamera sys) = None"
  by (simp add: stopCamera_def split: option.splits)

lemma stopCamera_fields:
  "sessions (stopCamera sys) = sessions sys"
  "pendingFrames (stopCamera sys) = pendingFrames sys"
  "isTracking (stopCamera sys) = isTracking sys"
  "currentSession (stopCamera sys) = currentSession sys"
  "dispatched (stopCamera sys) = dispatched sys"
  "trackingData (stopCamera sys) = trackingData sys"
  "frameHandles (stopCamera sys) = frameHandles sys"
  by (simp_all add: stopCamera_def split: option.splits)

lemma stopCamera_tracks:
  "videoElement sys = Some v \<Longrightarrow> srcObject v = Some ts \<Longrightarrow>
     set ts \<inter> set (liveTracks (stopCamera sys)) = {}"
  by (auto simp: stopCamera_def)

lemma stopCamera_none: "videoElement sys = None \<Longrightarrow> stopCamera sys = sys"
  by (simp add: stopCamera_def)

lemma session_end_effects:
  assumes "sid < length (sessions sys)"
  shows "ended (sessions (session_end sid sys) ! sid)"
    and "\<not> isTracking (session_end sid sys)"
    and "videoElement (session_end sid sys) = None"
    and "currentSession (session_end sid sys) = None"
    and "dispatched (session_end sid sys) = dispatched sys @ [(sid, SessionEnd)]"
    and "length (sessions (session_end sid sys)) = length (sessions sys)"
  using assms
  by (simp_all add: session_end_def Let_def stopCamera_video stopCamera_fields
        window_cancelAnimationFrame_def split: option.splits)

lemma session_end_cancels:
  assumes "sid < length (sessions sys)" and "animationFrameId (sessions sys ! sid) = Some h" and "h \<noteq> 0"
  shows "h \<notin> fst ` set (pendingFrames (session_end sid sys))"
  using assms
  by (auto simp: session_end_def Let_def stopCamera_fields window_cancelAnimationFrame_def)

lemma session_end_tracks:
  assumes "sid < length (sessions sys)" and "videoElement sys = Some v" and "srcObject v = Some ts"
  shows "set ts \<inter> set (liveTracks (session_end sid sys)) = {}"
  using assms
  by (auto simp: session_end_def Let_def stopCamera_def window_cancelAnimationFrame_def
        split: option.splits)

lemma session_end_twice:
  assumes "sid < length (sessions sys)"
  shows "session_end sid (session_end sid sys)
     = (session_end sid sys)\<lparr>dispatched := dispatched (session_end sid sys) @ [(sid, SessionEnd)]\<rparr>"
  using assms
  by (cases "videoElement sys"; cases "animationFrameId (sessions sys ! sid)")
     (simp_all add: session_end_def Let_def stopCamera_def window_cancelAnimationFrame_def)


lemma loop_ended:
  assumes "sid < length (sessions sys)"
  shows "loop sid h input (session_end sid sys)
     = ((session_end sid sys)\<lparr>pendingFrames :=
           filter (\<lambda>p. fst p \<noteq> h) (pendingFrames (session_end sid sys))\<rparr>, None)"
  using session_end_effects(1) [OF assms] session_end_effects(6) [OF assms] assms
  by (simp add: loop_def Let_def)

text \<open>
  The guard of \<open>requestSession\<close>: while \<^verbatim>\<open>currentSession\<close> holds a session, the call returns
  the \<open>InvalidStateError\<close> and the state it was called in; after \<open>end\<close> on that session the
  next call returns a new session, which is then the current one and not ended.
\<close>

lemma requestSession_guard:
  "(currentSession sys = Some sid
      \<longrightarrow> requestSession m opts sys = (Inl InvalidStateError, sys)
          \<and> sessions (snd (requestSession m opts sys)) = sessions sys)
   \<and> (currentSession sys = Some sid \<and> sid < length (sessions sys)
      \<longrightarrow> (\<exists>sys'. requestSession m opts (session_end sid sys) = (Inr (length (sessions sys)), sys')
             \<and> currentSession sys' = Some (length (sessions sys))
             \<and> isTracking sys'
             \<and> mode (sessions sys' ! length (sessions sys)) = m
             \<and> \<not> ended (sessions sys' ! length (sessions sys))))"
proof -
  have a: "currentSession sys = Some sid
      \<longrightarrow> requestSession m opts sys = (Inl InvalidStateError, sys)
          \<and> sessions (snd (requestSession m opts sys)) = sessions sys"
    by (simp add: requestSession_active)
  have b: "currentSession sys = Some sid \<and> sid < length (sessions sys)
      \<longrightarrow> (\<exists>sys'. requestSession m opts (session_end sid sys) = (Inr (length (sessions sys)), sys')
             \<and> currentSession sys' = Some (length (sessions sys))
             \<and> isTracking sys'
             \<and> mode (sessions sys' ! length (sessions sys)) = m
             \<and> \<not> ended (sessions sys' ! length (sessions sys)))"
  proof
    assume "currentSession sys = Some sid \<and> sid < length (sessions sys)"
    then have l: "sid < length (sessions sys)" by simp
    from requestSession_idle [OF session_end_effects(4) [OF l], of m opts]
    show "\<exists>sys'. requestSession m opts (session_end sid sys) = (Inr (length (sessions sys)), sys')
             \<and> currentSession sys' = Some (length (sessions sys))
             \<and> isTracking sys'
             \<and> mode (sessions sys' ! length (sessions sys)) = m
             \<and> \<not> ended (sessions sys' ! length (sessions sys))"
      by (auto simp: session_end_effects(6) [OF l])
  qed
  from a b show ?thesis by (rule conjI)
qed

lemma activeSystem_facts:
  "currentSession activeSystem = Some 0" "length (sessions activeSystem) = 1"
  "isTracking activeSystem" "dispatched activeSystem = []"
  "animationFrameId (sessions activeSystem ! 0) = Some 1"
  "pendingFrames activeSystem = [(1, 0)]" "videoElement activeSystem = None"
  "\<not> ended (sessions activeSystem ! 0)"
  by (simp_all add: activeSystem_def requestSession_def XRSession_def initialSystem_def
        window_requestAnimationFrame_def Let_def)

text \<open>
  C8, as the code has it. \<open>end\<close> on a session sets its ended flag, cancels the request for
  the next iteration of its frame loop (and an iteration that still ran would return at
  once), clears \<^verbatim>\<open>isTracking\<close>, stops the tracks of the camera and removes the video element,
  clears \<^verbatim>\<open>currentSession\<close> and dispatches one \<open>end\<close> event. \<open>end\<close> does not look at the ended
  flag: called again right away it leaves the rest of the state as it is and dispatches a
  second \<open>end\<close> event.
\<close>

theorem C8_session_end:
  assumes "sid < length (sessions sys)"
  shows "ended (sessions (session_end sid sys) ! sid)
     \<and> \<not> isTracking (session_end sid sys)
     \<and> (animationFrameId (sessions sys ! sid) = Some h \<and> h \<noteq> 0
          \<longrightarrow> h \<notin> fst ` set (pendingFrames (session_end sid sys)))
     \<and> loop sid h' input (session_end sid sys)
         = ((session_end sid sys)\<lparr>pendingFrames :=
               filter (\<lambda>p. fst p \<noteq> h') (pendingFrames (session_end sid sys))\<rparr>, None)
     \<and> videoElement (session_end sid sys) = None
     \<and> (videoElement sys = Some v \<and> srcObject v = Some ts
          \<longrightarrow> set ts \<inter> set (liveTracks (session_end sid sys)) = {})
     \<and> currentSession (session_end sid sys) = None
     \<and> dispatched (session_end sid sys) = dispatched sys @ [(sid, SessionEnd)]
     \<and> session_end sid (session_end sid sys)
         = (session_end sid sys)\<lparr>dispatched := dispatched sys @ [(sid, SessionEnd), (sid, SessionEnd)]\<rparr>"
proof -
  note e = session_end_effects [OF assms]
  have c: "animationFrameId (sessions sys ! sid) = Some h \<and> h \<noteq> 0
          \<longrightarrow> h \<notin> fst ` set (pendingFrames (session_end sid sys))"
    using session_end_cancels [OF assms, of h] by blast
  have t: "videoElement sys = Some v \<and> srcObject v = Some ts
          \<longrightarrow> set ts \<inter> set (liveTracks (session_end sid sys)) = {}"
    using session_end_tracks [OF assms, of v ts] by blast
  have w: "session_end sid (session_end sid sys)
         = (session_end sid sys)\<lparr>dispatched := dispatched sys @ [(sid, SessionEnd), (sid, SessionEnd)]\<rparr>"
    using session_end_twice [OF assms] by (simp add: e(5))
  from e(1) e(2) c loop_ended [OF assms] e(3) t e(4) e(5) w show ?thesis by (intro conjI)
qed

lemma cameraSystem_facts:
  "length (sessions cameraSystem) = 1"
  "animationFrameId (sessions cameraSystem ! 0) = Some 1"
  "videoElement cameraSystem = Some \<lparr>srcObject = Some [7]\<rparr>"
  "liveTracks cameraSystem = [7]" "dispatched cameraSystem = []"
  "pendingFrames cameraSystem = [(1, 0)]" "currentSession cameraSystem = Some 0"
  by (simp_all add: cameraSystem_def cameraStarted_def activeSystem_def requestSession_def
        XRSession_def initialSystem_def window_requestAnimationFrame_def Let_def)

theorem C8_session_end_witness:
  "0 < length (sessions cameraSystem)
   \<and> animationFrameId (sessions cameraSystem ! 0) = Some 1 \<and> (1::nat) \<noteq> 0
   \<and> videoElement cameraSystem = Some \<lparr>srcObject = Some [7]\<rparr>
   \<and> srcObject \<lparr>srcObject = Some [7]\<rparr> = Some [7]
   \<and> pendingFrames cameraSystem = [(1, 0)] \<and> liveTracks cameraSystem = [7]
   \<and> ended (sessions (session_end 0 cameraSystem) ! 0)
   \<and> \<not> isTracking (session_end 0 cameraSystem)
   \<and> 1 \<notin> fst ` set (pendingFrames (session_end 0 cameraSystem))
   \<and> videoElement (session_end 0 cameraSystem) = None
   \<and> set [7] \<inter> set (liveTracks (session_end 0 cameraSystem)) = {}
   \<and> currentSession (session_end 0 cameraSystem) = None
   \<and> dispatched (session_end 0 cameraSystem) = [(0, SessionEnd)]
   \<and> dispatched (session_end 0 (session_end 0 cameraSystem)) = [(0, SessionEnd), (0, SessionEnd)]"
proof -
  have l: "0 < length (sessions cameraSystem)" by (simp only: cameraSystem_facts)
  from C8_session_end [OF l, of 1 1 None "\<lparr>srcObject = Some [7]\<rparr>" "[7]"]
  show ?thesis by (simp add: cameraSystem_facts)
qed

theorem C8_double_end_counterexample:
  "ended (sessions (session_end 0 cameraSystem) ! 0)
   \<and> dispatched (session_end 0 cameraSystem) = [(0, SessionEnd)]
   \<and> dispatched (session_end 0 (session_end 0 cameraSystem)) = [(0, SessionEnd), (0, SessionEnd)]
   \<and> session_end 0 (session_end 0 cameraSystem) \<noteq> session_end 0 cameraSystem"
proof -
  have l: "0 < length (sessions cameraSystem)" by (simp only: cameraSystem_facts)
  note e = session_end_effects [OF l]
  have d1: "dispatched (session_end 0 cameraSystem) = [(0, SessionEnd)]"
    by (simp add: e(5) cameraSystem_facts)
  have l2: "0 < length (sessions (session_end 0 cameraSystem))" by (simp only: e(6) l)
  have d2: "dispatched (session_end 0 (session_end 0 cameraSystem)) = [(0, SessionEnd), (0, SessionEnd)]"
    by (simp add: session_end_effects(5) [OF l2] d1)
  have "dispatched (session_end 0 (session_end 0 cameraSystem)) \<noteq> dispatched (session_end 0 cameraSystem)"
    by (simp add: d1 d2)
  then have "session_end 0 (session_end 0 cameraSystem) \<noteq> session_end 0 cameraSystem" by auto
  with e(1) d1 d2 show ?thesis by simp
qed


lemma session_end_other:
  "sid' \<noteq> sid \<Longrightarrow> sessions (session_end sid sys) ! sid' = sessions sys ! sid'"
  by (simp add: session_end_def Let_def stopCamera_fields window_cancelAnimationFrame_def
        split: option.splits)

lemma secondSession:
  "sessions secondSystem ! 1 =
     \<lparr>mode = ''inline'', environmentBlendMode = ''opaque'', visibilityState = ''visible'',
      renderState = \<lparr>baseLayer = None, depthNear = 0.1, depthFar = 1000.0,
                     inlineVerticalFieldOfView = pi / 2\<rparr>,
      inputSources = XRInputSourceArray\<lparr>arr_handTrackingEnabled := False, arr_session := Some 1\<rparr>,
      options = exampleOptions, frameCallbacks = [], nextCallbackId = 1,
      animationFrameId = Some 2, ended = False, referenceSpaces = []\<rparr>"
  by (simp add: secondSystem_def activeSystem_def requestSession_def XRSession_def
        session_end_def stopCamera_def window_cancelAnimationFrame_def initialSystem_def
        window_requestAnimationFrame_def Let_def exampleOptions_def)

lemma secondSystem_facts:
  "currentSession secondSystem = Some 1" "length (sessions secondSystem) = 2"
  "ended (sessions secondSystem ! 0)" "\<not> ended (sessions secondSystem ! 1)"
  "animationFrameId (sessions secondSystem ! 0) = Some 1"
  "animationFrameId (sessions secondSystem ! 1) = Some 2"
  "pendingFrames secondSystem = [(2, 1)]" "frameHandles secondSystem = 2"
  "videoElement secondSystem = None" "isTracking secondSystem"
  "dispatched secondSystem = [(0, SessionEnd)]"
  "trackingData secondSystem = initialTracking"
  by (simp_all add: secondSystem_def activeSystem_def requestSession_def XRSession_def
        session_end_def stopCamera_def window_cancelAnimationFrame_def initialSystem_def
        window_requestAnimationFrame_def Let_def)

lemma staleEndSystem_facts:
  "currentSession staleEndSystem = None" "length (sessions staleEndSystem) = 2"
  "ended (sessions staleEndSystem ! 0)" "\<not> ended (sessions staleEndSystem ! 1)"
  "pendingFrames staleEndSystem = [(2, 1)]" "frameHandles staleEndSystem = 2"
  "\<not> isTracking staleEndSystem"
  "dispatched staleEndSystem = [(0, SessionEnd), (0, SessionEnd)]"
  "sessions staleEndSystem ! 1 = sessions secondSystem ! 1"
  "trackingData staleEndSystem = initialTracking"
  using secondSystem_facts
  by (simp_all add: staleEndSystem_def session_end_def stopCamera_def
        window_cancelAnimationFrame_def Let_def)

lemma idle_update:
  "XRInputSourceArray_update (XRInputSourceArray\<lparr>arr_handTrackingEnabled := False, arr_session := Some s\<rparr>)
      None None
     = Inr (XRInputSourceArray\<lparr>arr_handTrackingEnabled := False, arr_session := Some s\<rparr>, [])"
  by (simp add: XRInputSourceArray_update_def updateSide_def XRInputSourceArray_def Let_def)

text \<open>The frame loop of the second session after the second \<open>end\<close> on the first: its
  pending iteration runs without an exception and requests the next one.\<close>

lemma stale_loop:
  "snd (loop 1 2 None staleEndSystem) = None
   \<and> pendingFrames (fst (loop 1 2 None staleEndSystem)) = [(3, 1)]"
  using staleEndSystem_facts secondSession
  by (simp add: loop_def processFrame_def Let_def idle_update window_requestAnimationFrame_def
        initialTracking_def)

lemma requestSession_idle':
  assumes "currentSession sys = None"
  shows "fst (requestSession m opts sys) = Inr (length (sessions sys))
     \<and> currentSession (snd (requestSession m opts sys)) = Some (length (sessions sys))
     \<and> sessions (snd (requestSession m opts sys))
         = sessions sys @ [sessions (snd (requestSession m opts sys)) ! length (sessions sys)]
     \<and> \<not> ended (sessions (snd (requestSession m opts sys)) ! length (sessions sys))
     \<and> pendingFrames (snd (requestSession m opts sys))
         = pendingFrames sys @ [(Suc (frameHandles sys), length (sessions sys))]"
  using assms
  by (simp add: requestSession_def XRSession_def window_requestAnimationFrame_def Let_def)

text \<open>
  C2. The claim is that a request fails while a session is active. Take the calls
  \<^verbatim>\<open>s0 = requestSession( 'immersive-vr' )\<close>, \<^verbatim>\<open>s0.end()\<close>, \<^verbatim>\<open>s1 = requestSession( 'inline' )\<close>. Then
  \<open>s1\<close> is the current session and a further request is refused with the state unchanged.
  After \<^verbatim>\<open>s0.end()\<close> once more, on the session that has ended already, \<^verbatim>\<open>currentSession\<close> is
  empty although \<open>s1\<close> has not ended and the next iteration of its frame loop is still
  requested (when it runs, it requests the one after: \<open>stale_loop\<close>). In that state
  \<open>requestSession\<close> does not fail: it returns a third session and changes the state, and two
  sessions that have not ended run their frame loops side by side.
\<close>

theorem C2_request_beside_running_session:
  "currentSession secondSystem = Some 1
   \<and> requestSession ''inline'' exampleOptions secondSystem = (Inl InvalidStateError, secondSystem)
   \<and> ended (sessions secondSystem ! 0)
   \<and> staleEndSystem = session_end 0 secondSystem
   \<and> currentSession staleEndSystem = None
   \<and> \<not> ended (sessions staleEndSystem ! 1)
   \<and> pendingFrames staleEndSystem = [(2, 1)]
   \<and> fst (requestSession ''inline'' exampleOptions staleEndSystem) = Inr 2
   \<and> snd (requestSession ''inline'' exampleOptions staleEndSystem) \<noteq> staleEndSystem
   \<and> \<not> ended (sessions (snd (requestSession ''inline'' exampleOptions staleEndSystem)) ! 1)
   \<and> \<not> ended (sessions (snd (requestSession ''inline'' exampleOptions staleEndSystem)) ! 2)
   \<and> pendingFrames (snd (requestSession ''inline'' exampleOptions staleEndSystem)) = [(2, 1), (3, 2)]"
proof -
  let ?r = "requestSession ''inline'' exampleOptions staleEndSystem"
  note i = requestSession_idle' [OF staleEndSystem_facts(1), of "''inline''" exampleOptions]
  from i have f: "fst ?r = Inr 2" by (simp add: staleEndSystem_facts)
  from i have c: "currentSession (snd ?r) = Some 2" by (simp add: staleEndSystem_facts)
  then have n: "snd ?r \<noteq> staleEndSystem" using staleEndSystem_facts(1) by auto
  from i have s: "sessions (snd ?r) = sessions staleEndSystem @ [sessions (snd ?r) ! 2]"
    by (simp add: staleEndSystem_facts)
  have eq1: "sessions (snd ?r) ! 1 = sessions staleEndSystem ! 1"
    by (subst s) (simp add: nth_append staleEndSystem_facts)
  have e1: "\<not> ended (sessions (snd ?r) ! 1)"
    unfolding eq1 by (rule staleEndSystem_facts(4))
  from i have e2: "\<not> ended (sessions (snd ?r) ! 2)" by (simp add: staleEndSystem_facts)
  from i have p: "pendingFrames (snd ?r) = [(2, 1), (3, 2)]" by (simp add: staleEndSystem_facts)
  have g: "requestSession ''inline'' exampleOptions secondSystem = (Inl InvalidStateError, secondSystem)"
    by (rule requestSession_active) (rule secondSystem_facts)
  from secondSystem_facts(1) g secondSystem_facts(3) staleEndSystem_def staleEndSystem_facts(1)
    staleEndSystem_facts(4) staleEndSystem_facts(5) f n e1 e2 p
  show ?thesis by (intro conjI)
qed

end
